theory Spec2Isabelle
  imports Complex_Main "HOL-Library.Log_Nat" "HOL-Library.Multiset"
begin

section \<open>Numbers\<close>

text \<open>
  A JavaScript number is an IEEE 754 double: a finite value (\<open>Fin 0\<close> is \<open>+0\<close>),
  \<open>-0\<close>, one of the two infinities, or NaN. The finite values are carried as
  rationals; every arithmetic operation rounds its exact result to the nearest double,
  ties to the even significand.
\<close>

datatype jsnum = Fin rat | NegZero | PosInf | NegInf | NaN

text \<open>Rounding to the nearest integer, ties to even.\<close>

definition round_even :: "rat \<Rightarrow> int" where
  "round_even x =
     (let f = \<lfloor>x\<rfloor>; d = x - of_int f
      in if d < 1 / 2 then f else if 1 / 2 < d then f + 1 else if even f then f else f + 1)"

text \<open>The binary exponent of a non-zero rational: \<open>2 ^ e \<le> \<bar>x\<bar> < 2 ^ (e + 1)\<close>.\<close>

definition floor_log2 :: "rat \<Rightarrow> int" where
  "floor_log2 x =
     (if 1 \<le> \<bar>x\<bar> then bitlen \<lfloor>\<bar>x\<bar>\<rfloor> - 1 else - bitlen (\<lceil>1 / \<bar>x\<bar>\<rceil> - 1))"

text \<open>
  The double nearest to a rational: a significand of 53 bits, the least exponent \<open>-1074\<close>
  of the subnormal numbers, and the infinities from \<open>2 ^ 1024\<close> on. A result that rounds
  to zero is returned as \<open>Fin 0\<close>; \<open>rnd\<close> gives it the sign of the operation.
\<close>

definition to_double :: "rat \<Rightarrow> jsnum" where
  "to_double x =
     (if x = 0 then Fin 0
      else
        (let e = max (- 1074) (floor_log2 x - 52);
             r = of_int (round_even (x / 2 powi e)) * 2 powi e
         in if 2 ^ 1024 \<le> r then PosInf else if r \<le> - (2 ^ 1024) then NegInf else Fin r))"

text \<open>
  A decimal literal of the source, such as \<open>0.4\<close>, is the double nearest to it. The
  integer literals of the source are doubles themselves and are written \<open>Fin n\<close>.
\<close>

definition lit :: "rat \<Rightarrow> jsnum" where
  "lit r = to_double r"

definition signed_zero :: "bool \<Rightarrow> jsnum" where
  "signed_zero negative = (if negative then NegZero else Fin 0)"

definition signed_inf :: "bool \<Rightarrow> jsnum" where
  "signed_inf negative = (if negative then NegInf else PosInf)"

definition rnd :: "bool \<Rightarrow> rat \<Rightarrow> jsnum" where
  "rnd negative x = (if to_double x = Fin 0 then signed_zero negative else to_double x)"

text \<open>The value of a finite number, whether it is finite, and its sign bit.\<close>

fun val :: "jsnum \<Rightarrow> rat" where
  "val (Fin r) = r"
| "val NegZero = 0"
| "val PosInf = 0"
| "val NegInf = 0"
| "val NaN = 0"

fun isFinite :: "jsnum \<Rightarrow> bool" where
  "isFinite (Fin r) = True"
| "isFinite NegZero = True"
| "isFinite PosInf = False"
| "isFinite NegInf = False"
| "isFinite NaN = False"

fun sign_bit :: "jsnum \<Rightarrow> bool" where
  "sign_bit (Fin r) = (r < 0)"
| "sign_bit NegZero = True"
| "sign_bit PosInf = False"
| "sign_bit NegInf = True"
| "sign_bit NaN = False"

text \<open>The operators \<open>-x\<close>, \<open>x + y\<close>, \<open>x - y\<close>, \<open>x * y\<close> and \<open>x / y\<close>.\<close>

fun js_neg :: "jsnum \<Rightarrow> jsnum" where
  "js_neg (Fin r) = (if r = 0 then NegZero else Fin (- r))"
| "js_neg NegZero = Fin 0"
| "js_neg PosInf = NegInf"
| "js_neg NegInf = PosInf"
| "js_neg NaN = NaN"

definition js_add :: "jsnum \<Rightarrow> jsnum \<Rightarrow> jsnum" where
  "js_add x y =
     (if x = NaN \<or> y = NaN then NaN
      else if \<not> isFinite x then (if \<not> isFinite y \<and> x \<noteq> y then NaN else x)
      else if \<not> isFinite y then y
      else if val x + val y = 0 then signed_zero (x = NegZero \<and> y = NegZero)
      else rnd (val x + val y < 0) (val x + val y))"

definition js_sub :: "jsnum \<Rightarrow> jsnum \<Rightarrow> jsnum" where
  "js_sub x y = js_add x (js_neg y)"

definition js_mul :: "jsnum \<Rightarrow> jsnum \<Rightarrow> jsnum" where
  "js_mul x y =
     (if x = NaN \<or> y = NaN then NaN
      else if \<not> isFinite x \<or> \<not> isFinite y
      then (if (isFinite x \<and> val x = 0) \<or> (isFinite y \<and> val y = 0) then NaN
            else signed_inf (sign_bit x \<noteq> sign_bit y))
      else rnd (sign_bit x \<noteq> sign_bit y) (val x * val y))"

definition js_div :: "jsnum \<Rightarrow> jsnum \<Rightarrow> jsnum" where
  "js_div x y =
     (if x = NaN \<or> y = NaN then NaN
      else if \<not> isFinite x
      then (if \<not> isFinite y then NaN else signed_inf (sign_bit x \<noteq> sign_bit y))
      else if \<not> isFinite y then signed_zero (sign_bit x \<noteq> sign_bit y)
      else if val y = 0
      then (if val x = 0 then NaN else signed_inf (sign_bit x \<noteq> sign_bit y))
      else rnd (sign_bit x \<noteq> sign_bit y) (val x / val y))"

text \<open>
  The comparisons \<open>x < y\<close>, \<open>x > y\<close> and \<open>x <= y\<close>: each is false when an operand is
  NaN, and the two zeros are equal.
\<close>

definition js_lt :: "jsnum \<Rightarrow> jsnum \<Rightarrow> bool" where
  "js_lt x y =
     (x \<noteq> NaN \<and> y \<noteq> NaN \<and> x \<noteq> PosInf \<and> y \<noteq> NegInf
      \<and> (x = NegInf \<or> y = PosInf \<or> val x < val y))"

definition js_gt :: "jsnum \<Rightarrow> jsnum \<Rightarrow> bool" where
  "js_gt x y = js_lt y x"

definition js_le :: "jsnum \<Rightarrow> jsnum \<Rightarrow> bool" where
  "js_le x y = (x \<noteq> NaN \<and> y \<noteq> NaN \<and> \<not> js_lt y x)"

definition is_zero :: "jsnum \<Rightarrow> bool" where
  "is_zero x = (x = Fin 0 \<or> x = NegZero)"

text \<open>A number is falsy in a condition when it is a zero or NaN.\<close>

definition truthy :: "jsnum \<Rightarrow> bool" where
  "truthy x = (\<not> is_zero x \<and> x \<noteq> NaN)"

text \<open>
  \<open>parseFloat\<close> of a number converts it to a string and reads that back, which gives the
  number again except that \<open>-0\<close>, printed as "0", comes back as \<open>+0\<close>.
\<close>

definition parseFloat_number :: "jsnum \<Rightarrow> jsnum" where
  "parseFloat_number x = (if x = NegZero then Fin 0 else x)"

text \<open>\<open>Math.min(...coerced)\<close>.\<close>

definition Math_min :: "jsnum list \<Rightarrow> jsnum" where
  "Math_min coerced =
     fold (\<lambda>number lowest.
             if lowest = NaN \<or> number = NaN then NaN
             else if number = NegZero \<and> lowest = Fin 0 then NegZero
             else if js_lt number lowest then number else lowest)
       coerced PosInf"

text \<open>
  The finite numbers that a double can hold: \<open>-0\<close>, and the rationals that rounding
  leaves as they are. Every number of a JavaScript program other than NaN and the
  infinities is one of them.
\<close>

definition finite_double :: "jsnum \<Rightarrow> bool" where
  "finite_double x = (case x of Fin r \<Rightarrow> to_double r = Fin r | NegZero \<Rightarrow> True | _ \<Rightarrow> False)"

text \<open>All doubles are multiples of \<open>2 ^ -1074\<close>.\<close>

definition on_grid :: "rat \<Rightarrow> bool" where
  "on_grid r = (r * 2 ^ 1074 \<in> \<int>)"

section \<open>Strings\<close>

text \<open>
  A string is the list of the bytes of its UTF-8 encoding, so that the ASCII characters
  are single elements. \<open>s.startsWith(w)\<close>, \<open>s.endsWith(w)\<close> and \<open>s.includes(w)\<close> are
  used with ASCII words \<open>w\<close> only, for which they are the following functions. The
  built-ins \<open>toUpperCase\<close>, \<open>toLowerCase\<close> and \<open>trim\<close>, which follow the Unicode
  tables, are not interpreted: they are parameters (record \<open>platform\<close> below).
\<close>

definition lower_letters :: string where
  "lower_letters = ''abcdefghijklmnopqrstuvwxyz''"

definition upper_letters :: string where
  "upper_letters = ''ABCDEFGHIJKLMNOPQRSTUVWXYZ''"

definition digits :: string where
  "digits = ''0123456789''"

definition startsWith :: "string \<Rightarrow> string \<Rightarrow> bool" where
  "startsWith s w = (take (length w) s = w)"

definition endsWith :: "string \<Rightarrow> string \<Rightarrow> bool" where
  "endsWith s w = (length w \<le> length s \<and> drop (length s - length w) s = w)"

fun str_includes :: "string \<Rightarrow> string \<Rightarrow> bool" where
  "str_includes [] w = (w = [])"
| "str_includes (c # cs) w = (startsWith (c # cs) w \<or> str_includes cs w)"

text \<open>
  A value is falsy in a condition when it is absent (\<open>null\<close>, \<open>undefined\<close>), the number
  zero or the empty string.
\<close>

definition truthy_num :: "nat option \<Rightarrow> bool" where
  "truthy_num v = (case v of None \<Rightarrow> False | Some n \<Rightarrow> n \<noteq> 0)"

definition truthy_str :: "string option \<Rightarrow> bool" where
  "truthy_str v = (case v of None \<Rightarrow> False | Some t \<Rightarrow> t \<noteq> [])"

section \<open>Quotes and ranking (bridgeRouter.js)\<close>

text \<open>
  The object every provider adapter returns. \<open>rawQuote\<close> and \<open>note\<close> are opaque
  payloads that the modelled functions never inspect; they are left out.
\<close>

record quote =
  bridge :: string
  feeUSD :: jsnum
  estimatedMinutes :: jsnum
  successRate :: jsnum
  liquidityUSD :: jsnum
  executionMethod :: string
  executionReady :: bool

text \<open>
  What the process is given and the model does not interpret: the token address table of
  \<open>config/keys.js\<close>, which is not part of the sources (\<open>TOKENS pf K t\<close> is
  \<open>config.TOKENS[K]?.[t]\<close>), the string built-ins of the engine, and the order in which
  the engine's \<open>Array.prototype.sort\<close> leaves the elements when the standard does not
  fix it (\<open>sort_order pf cmp xs i\<close> is the rank that the element at index \<open>i\<close> gets).
\<close>

record platform =
  TOKENS :: "string \<Rightarrow> string \<Rightarrow> string option"
  toUpperCase :: "string \<Rightarrow> string"
  toLowerCase :: "string \<Rightarrow> string"
  trim :: "string \<Rightarrow> string"
  sort_order :: "(quote \<Rightarrow> quote \<Rightarrow> jsnum) \<Rightarrow> quote list \<Rightarrow> nat \<Rightarrow> nat"

text \<open>
  The weighted score of the fall-through case of the comparator, with the operations in
  the order of the source, and the comparator that \<open>rankQuotes\<close> hands to
  \<open>Array.prototype.sort\<close>.
\<close>

definition balanced_score :: "quote \<Rightarrow> jsnum" where
  "balanced_score a =
     js_add (js_add (js_mul (feeUSD a) (lit 0.4)) (js_mul (estimatedMinutes a) (lit 0.4)))
       (js_mul (js_mul (js_sub (Fin 1) (successRate a)) (Fin 100)) (lit 0.2))"

definition compareQuotes :: "string \<Rightarrow> quote \<Rightarrow> quote \<Rightarrow> jsnum" where
  "compareQuotes priority a b =
     (if priority = ''cheapest'' then js_sub (feeUSD a) (feeUSD b)
      else if priority = ''fastest'' then js_sub (estimatedMinutes a) (estimatedMinutes b)
      else if priority = ''safest'' then js_sub (successRate b) (successRate a)
      else
        (let scoreA = balanced_score a;
             scoreB = balanced_score b
         in js_sub scoreA scoreB))"

text \<open>
  \<open>Array.prototype.sort\<close> with a comparator. ECMAScript asks of a comparator that it be
  a consistent comparison function for the elements: it never returns NaN, and "returns
  zero" is an equivalence and "returns a negative number" and "returns a positive number"
  are transitive on them.
\<close>

definition consistent :: "('a \<Rightarrow> 'a \<Rightarrow> jsnum) \<Rightarrow> 'a list \<Rightarrow> bool" where
  "consistent cmp xs =
     (\<forall>a \<in> set xs. \<forall>b \<in> set xs. \<forall>c \<in> set xs.
        cmp a b \<noteq> NaN
        \<and> is_zero (cmp a a)
        \<and> (is_zero (cmp a b) \<longrightarrow> is_zero (cmp b a))
        \<and> (is_zero (cmp a b) \<and> is_zero (cmp b c) \<longrightarrow> is_zero (cmp a c))
        \<and> (js_lt (cmp a b) (Fin 0) \<and> js_lt (cmp b c) (Fin 0) \<longrightarrow> js_lt (cmp a c) (Fin 0))
        \<and> (js_gt (cmp a b) (Fin 0) \<and> js_gt (cmp b c) (Fin 0) \<longrightarrow> js_gt (cmp a c) (Fin 0)))"

text \<open>
  For a consistent comparator the standard (2019 and later) requires a stable sort, whose
  result is unique; it is computed here by a stable insertion sort, in which an element
  goes in front of the first later element that the comparator does not put before it.
\<close>

fun place_by :: "('a \<Rightarrow> 'a \<Rightarrow> jsnum) \<Rightarrow> 'a \<Rightarrow> 'a list \<Rightarrow> 'a list" where
  "place_by cmp x [] = [x]"
| "place_by cmp x (y # ys) =
     (if js_gt (cmp x y) (Fin 0) then y # place_by cmp x ys else x # y # ys)"

definition stable_sort :: "('a \<Rightarrow> 'a \<Rightarrow> jsnum) \<Rightarrow> 'a list \<Rightarrow> 'a list" where
  "stable_sort cmp xs = foldr (place_by cmp) xs []"

text \<open>
  For any other comparator the order is implementation-defined: the elements come back in
  an order of the engine's choosing, given by the rank of each index, equal ranks in the
  order of the indices.
\<close>

definition reorder :: "(nat \<Rightarrow> nat) \<Rightarrow> 'a list \<Rightarrow> 'a list" where
  "reorder rank xs = map snd (sort_key fst (zip (map rank [0..<length xs]) xs))"

definition array_sort ::
  "platform \<Rightarrow> (quote \<Rightarrow> quote \<Rightarrow> jsnum) \<Rightarrow> quote list \<Rightarrow> quote list" where
  "array_sort pf cmp xs =
     (if consistent cmp xs then stable_sort cmp xs else reorder (sort_order pf cmp xs) xs)"

definition rankQuotes :: "platform \<Rightarrow> quote list \<Rightarrow> string \<Rightarrow> quote list" where
  "rankQuotes pf quotes priority = array_sort pf (compareQuotes priority) quotes"

text \<open>
  The number by which a policy ranks a quote: the fee, the minutes, the success rate, and
  for every other priority, so also for "balanced", the weighted score.
\<close>

definition rank_key :: "string \<Rightarrow> quote \<Rightarrow> jsnum" where
  "rank_key priority q =
     (if priority = ''cheapest'' then feeUSD q
      else if priority = ''fastest'' then estimatedMinutes q
      else if priority = ''safest'' then successRate q
      else balanced_score q)"

text \<open>
  The rational by which quotes with finite keys are ordered: the value of the key, negated
  for "safest", which ranks the highest rate first.
\<close>

definition sort_val :: "string \<Rightarrow> quote \<Rightarrow> rat" where
  "sort_val priority q =
     (if priority = ''safest'' then - val (successRate q) else val (rank_key priority q))"

text \<open>
  The weighted score of the "balanced" policy as the specification words it, in exact
  arithmetic on the values of the three fields.
\<close>

definition spec_balanced_score :: "quote \<Rightarrow> rat" where
  "spec_balanced_score q =
     0.4 * val (feeUSD q) + 0.4 * val (estimatedMinutes q) + 0.2 * (1 - val (successRate q)) * 100"

section \<open>Provider adapters and aggregation (bridgeRouter.js)\<close>

record chain_ids =
  evmId :: "nat option"
  wormholeId :: "nat option"
  axelarName :: "string option"
  layerzeroId :: "nat option"
  acrossId :: "nat option"

definition CHAIN_IDS :: "string \<Rightarrow> chain_ids option" where
  "CHAIN_IDS = map_of
     [(''ethereum'', \<lparr>evmId = Some 1, wormholeId = Some 2, axelarName = Some ''ethereum'',
         layerzeroId = Some 101, acrossId = Some 1\<rparr>),
      (''base'', \<lparr>evmId = Some 8453, wormholeId = Some 30, axelarName = Some ''base'',
         layerzeroId = Some 184, acrossId = Some 8453\<rparr>),
      (''celo'', \<lparr>evmId = Some 42220, wormholeId = Some 14, axelarName = Some ''celo'',
         layerzeroId = Some 125, acrossId = None\<rparr>),
      (''polygon'', \<lparr>evmId = Some 137, wormholeId = Some 5, axelarName = Some ''polygon'',
         layerzeroId = Some 109, acrossId = Some 137\<rparr>),
      (''arbitrum'', \<lparr>evmId = Some 42161, wormholeId = Some 23, axelarName = Some ''arbitrum'',
         layerzeroId = Some 110, acrossId = Some 42161\<rparr>),
      (''optimism'', \<lparr>evmId = Some 10, wormholeId = Some 24, axelarName = Some ''optimism'',
         layerzeroId = Some 111, acrossId = Some 10\<rparr>),
      (''solana'', \<lparr>evmId = None, wormholeId = Some 1, axelarName = None,
         layerzeroId = None, acrossId = None\<rparr>),
      (''bnb'', \<lparr>evmId = Some 56, wormholeId = Some 4, axelarName = Some ''binance'',
         layerzeroId = Some 102, acrossId = None\<rparr>)]"

text \<open>\<open>CHAIN_IDS[chain]?.field\<close>: absent when the chain is not in the table.\<close>

definition chain_field :: "(chain_ids \<Rightarrow> 'a option) \<Rightarrow> string \<Rightarrow> 'a option" where
  "chain_field f c = (case CHAIN_IDS c of None \<Rightarrow> None | Some r \<Rightarrow> f r)"

text \<open>
  What one HTTP call of an adapter does: it throws (\<open>fetch\<close>, \<open>response.json()\<close>, or the
  first property access on a body that is \<open>null\<close>), the response is not ok, or the body is
  parsed. The bodies carry the fields the adapters read. A field that goes through
  \<open>parseFloat(field || default)\<close> is \<open>None\<close> when it is absent or falsy and \<open>Some v\<close>
  when it is truthy and \<open>parseFloat\<close> reads \<open>v\<close> from it, which is NaN for a value
  that does not start with a number. The two percentages of Across go through
  \<open>parseFloat\<close> with no default: they are NaN when absent.
\<close>

datatype 'a fetched = Threw | NotOk | Ok 'a

record across_data =
  relayFeePct :: jsnum
  capitalFeePct :: jsnum
  totalRelayFee_total :: "jsnum option"

record wormhole_data =
  fee_usd :: "jsnum option"
  liquidity :: "jsnum option"

record axelar_data =
  fee_total :: "jsnum option"

record celer_data =
  err :: bool
  fee :: "jsnum option"
  liq_amt :: "jsnum option"

record apis =
  across_api :: "across_data fetched"
  wormhole_api :: "wormhole_data fetched"
  axelar_api :: "axelar_data fetched"
  celer_api :: "celer_data fetched"

text \<open>
  \<open>BigInt(Math.floor(amount * 1e6))\<close> throws a RangeError, which the adapter catches,
  when the product is NaN or infinite.
\<close>

definition getAcrossQuote ::
  "platform \<Rightarrow> apis \<Rightarrow> string \<Rightarrow> string \<Rightarrow> string \<Rightarrow> jsnum \<Rightarrow> quote option" where
  "getAcrossQuote pf net fromChain toChain token amount =
     (if \<not> truthy_num (chain_field acrossId fromChain) \<or> \<not> truthy_num (chain_field acrossId toChain)
      then None
      else if \<not> truthy_str (TOKENS pf (toUpperCase pf fromChain) token)
            \<or> \<not> truthy_str (TOKENS pf (toUpperCase pf toChain) token)
      then None
      else if \<not> isFinite (js_mul amount (Fin 1000000)) then None
      else
        (case across_api net of
           Threw \<Rightarrow> None
         | NotOk \<Rightarrow> None
         | Ok d \<Rightarrow>
             (let feeUSD = js_div (js_mul (relayFeePct d) amount) (Fin 100);
                  capitalFeeUSD = js_div (js_mul (capitalFeePct d) amount) (Fin 100);
                  totalFeeUSD = js_add feeUSD capitalFeeUSD
              in Some \<lparr>bridge = ''Across'', feeUSD = totalFeeUSD, estimatedMinutes = Fin 2,
                   successRate = lit 0.98,
                   liquidityUSD =
                     js_div (case totalRelayFee_total d of None \<Rightarrow> Fin 999999 | Some v \<Rightarrow> v)
                       (Fin 1000000),
                   executionMethod = ''across_relay'', executionReady = False\<rparr>)))"

definition getWormholeQuote :: "apis \<Rightarrow> string \<Rightarrow> string \<Rightarrow> string \<Rightarrow> jsnum \<Rightarrow> quote option" where
  "getWormholeQuote net fromChain toChain token amount =
     (if \<not> truthy_num (chain_field wormholeId fromChain)
          \<or> \<not> truthy_num (chain_field wormholeId toChain)
      then None
      else
        (case wormhole_api net of
           Threw \<Rightarrow> None
         | NotOk \<Rightarrow>
             Some \<lparr>bridge = ''Wormhole'',
               feeUSD = js_add (js_mul amount (lit 0.001)) (lit 0.5),
               estimatedMinutes = Fin 15, successRate = lit 0.97, liquidityUSD = Fin 10000000,
               executionMethod = ''wormhole_ntt'', executionReady = True\<rparr>
         | Ok d \<Rightarrow>
             Some \<lparr>bridge = ''Wormhole'',
               feeUSD =
                 (case fee_usd d of
                    None \<Rightarrow> parseFloat_number (js_add (js_mul amount (lit 0.001)) (lit 0.5))
                  | Some v \<Rightarrow> v),
               estimatedMinutes = Fin 15, successRate = lit 0.97,
               liquidityUSD = (case liquidity d of None \<Rightarrow> Fin 10000000 | Some v \<Rightarrow> v),
               executionMethod = ''wormhole_ntt'', executionReady = True\<rparr>))"

definition getAxelarQuote :: "apis \<Rightarrow> string \<Rightarrow> string \<Rightarrow> string \<Rightarrow> jsnum \<Rightarrow> quote option" where
  "getAxelarQuote net fromChain toChain token amount =
     (if \<not> truthy_str (chain_field axelarName fromChain)
          \<or> \<not> truthy_str (chain_field axelarName toChain)
      then None
      else
        (case axelar_api net of
           Threw \<Rightarrow> None
         | NotOk \<Rightarrow> None
         | Ok d \<Rightarrow>
             Some \<lparr>bridge = ''Axelar'',
               feeUSD =
                 (case fee_total d of
                    None \<Rightarrow> parseFloat_number (js_mul amount (lit 0.002))
                  | Some v \<Rightarrow> v),
               estimatedMinutes = Fin 5, successRate = lit 0.96, liquidityUSD = Fin 5000000,
               executionMethod = ''axelar_gmp'', executionReady = True\<rparr>))"

definition getCelerQuote ::
  "platform \<Rightarrow> apis \<Rightarrow> string \<Rightarrow> string \<Rightarrow> string \<Rightarrow> jsnum \<Rightarrow> quote option" where
  "getCelerQuote pf net fromChain toChain token amount =
     (if \<not> truthy_num (chain_field evmId fromChain) \<or> \<not> truthy_num (chain_field evmId toChain)
      then None
      else if \<not> truthy_str (TOKENS pf (toUpperCase pf fromChain) token) then None
      else
        (case celer_api net of
           Threw \<Rightarrow> None
         | NotOk \<Rightarrow> None
         | Ok d \<Rightarrow>
             (if err d then None
              else
                Some \<lparr>bridge = ''Celer'',
                  feeUSD =
                    (case fee d of
                       None \<Rightarrow> parseFloat_number (js_mul amount (lit 0.003))
                     | Some v \<Rightarrow> v),
                  estimatedMinutes = Fin 5, successRate = lit 0.95,
                  liquidityUSD =
                    js_div (case liq_amt d of None \<Rightarrow> Fin 1000000 | Some v \<Rightarrow> v) (Fin 1000000),
                  executionMethod = ''celer_cbridge'', executionReady = True\<rparr>)))"

definition getLayerZeroQuote :: "string \<Rightarrow> string \<Rightarrow> string \<Rightarrow> jsnum \<Rightarrow> quote option" where
  "getLayerZeroQuote fromChain toChain token amount =
     (if \<not> truthy_num (chain_field layerzeroId fromChain)
          \<or> \<not> truthy_num (chain_field layerzeroId toChain)
      then None
      else
        (let estimatedFee = js_add (js_mul amount (lit 0.0006)) (lit 0.45)
         in Some \<lparr>bridge = ''LayerZero/Stargate'', feeUSD = estimatedFee,
              estimatedMinutes = Fin 3, successRate = lit 0.97, liquidityUSD = Fin 50000000,
              executionMethod = ''layerzero_stargate'', executionReady = True\<rparr>))"

text \<open>
  The warnings of the router, one constructor for each template string, carrying the
  values that the template interpolates.
\<close>

datatype route_warning =
    NoSupportedRoute string string string
  | SdkNotInstalled "string list"
  | LowLiquidity string jsnum
  | HighFee string jsnum jsnum

text \<open>
  The result of \<open>getBestBridgeRoute\<close>: \<open>best\<close>, \<open>all\<close> and \<open>warnings\<close>
  (\<open>all_ranked\<close> and \<open>route_warnings\<close> here).
\<close>

record ranked_routes =
  best :: "quote option"
  all_ranked :: "quote list"
  route_warnings :: "route_warning list"

text \<open>An entry of the array that \<open>Promise.allSettled\<close> resolves to.\<close>

datatype 'a settled = Rejected | Fulfilled 'a

definition fulfilled_quotes :: "quote option settled list \<Rightarrow> quote list" where
  "fulfilled_quotes quotes =
     concat (map (\<lambda>s. case s of Fulfilled (Some q) \<Rightarrow> [q] | _ \<Rightarrow> []) quotes)"

definition quote_flags :: "jsnum \<Rightarrow> quote \<Rightarrow> route_warning list" where
  "quote_flags amount q =
     (if js_lt (liquidityUSD q) (js_mul amount (Fin 2))
      then [LowLiquidity (bridge q) (liquidityUSD q)] else [])
     @ (if js_gt (feeUSD q) (js_mul amount (lit 0.05))
        then [HighFee (bridge q) (feeUSD q) (js_mul (js_div (feeUSD q) amount) (Fin 100))]
        else [])"

text \<open>The body of \<open>getBestBridgeRoute\<close> from the settled provider calls on.\<close>

definition rank_settled ::
  "platform \<Rightarrow> quote option settled list \<Rightarrow> string \<Rightarrow> string \<Rightarrow> string \<Rightarrow> jsnum \<Rightarrow> string
    \<Rightarrow> ranked_routes"
  where
  "rank_settled pf quotes fromChain toChain token amount priority =
     (let allQuotes = fulfilled_quotes quotes;
          validQuotes = filter (\<lambda>q. executionReady q = True) allQuotes;
          useQuotes = (if length validQuotes > 0 then validQuotes else allQuotes)
      in if length useQuotes = 0
         then \<lparr>best = None, all_ranked = [],
                route_warnings = [NoSupportedRoute token fromChain toChain]\<rparr>
         else
           (let notReady = filter (\<lambda>q. executionReady q = False) allQuotes;
                warnings =
                  (if length notReady > 0 \<and> length validQuotes = 0
                   then [SdkNotInstalled (map bridge notReady)] else [])
                  @ concat (map (quote_flags amount) useQuotes);
                ranked = rankQuotes pf useQuotes priority
            in \<lparr>best = (case ranked of [] \<Rightarrow> None | q # _ \<Rightarrow> Some q), all_ranked = ranked,
                 route_warnings = warnings\<rparr>))"

text \<open>
  Every adapter is an \<open>async\<close> function whose whole body is inside \<open>try/catch\<close>, so each
  of the five promises is fulfilled. \<open>priority\<close> is optional and defaults to "cheapest".
\<close>

definition getBestBridgeRoute ::
  "platform \<Rightarrow> apis \<Rightarrow> string \<Rightarrow> string \<Rightarrow> string \<Rightarrow> jsnum \<Rightarrow> string option \<Rightarrow> ranked_routes"
  where
  "getBestBridgeRoute pf net fromChain toChain token amount priority =
     rank_settled pf
       [Fulfilled (getAcrossQuote pf net fromChain toChain token amount),
        Fulfilled (getWormholeQuote net fromChain toChain token amount),
        Fulfilled (getAxelarQuote net fromChain toChain token amount),
        Fulfilled (getCelerQuote pf net fromChain toChain token amount),
        Fulfilled (getLayerZeroQuote fromChain toChain token amount)]
       fromChain toChain token amount
       (case priority of None \<Rightarrow> ''cheapest'' | Some p \<Rightarrow> p)"

section \<open>Chain detection (chainDetector.js)\<close>

text \<open>
  The regular expressions of \<open>CHAIN_PATTERNS\<close>, each anchored at both ends, as predicates
  on the whole string. A character class is the set of its characters.
\<close>

definition base58 :: "char \<Rightarrow> bool" where
  "base58 c = (c \<in> set ''123456789ABCDEFGHJKLMNPQRSTUVWXYZabcdefghijkmnopqrstuvwxyz'')"

definition hex_digit :: "char \<Rightarrow> bool" where
  "hex_digit c = (c \<in> set ''abcdefABCDEF0123456789'')"

definition alnum :: "char \<Rightarrow> bool" where
  "alnum c = (c \<in> set (lower_letters @ upper_letters @ digits))"

definition lower_alnum :: "char \<Rightarrow> bool" where
  "lower_alnum c = (c \<in> set (lower_letters @ digits))"

definition near_char :: "char \<Rightarrow> bool" where
  "near_char c = (c \<in> set (lower_letters @ digits @ ''_-''))"

definition lower_hex :: "char \<Rightarrow> bool" where
  "lower_hex c = (c \<in> set ''abcdef0123456789'')"

text \<open>\<open>prefix\<close> followed by between \<open>lo\<close> and \<open>hi\<close> characters of a class.\<close>

definition prefixed :: "string \<Rightarrow> (char \<Rightarrow> bool) \<Rightarrow> nat \<Rightarrow> nat \<Rightarrow> string \<Rightarrow> bool" where
  "prefixed pre cls lo hi s =
     (startsWith s pre \<and> length pre + lo \<le> length s \<and> length s \<le> length pre + hi
      \<and> list_all cls (drop (length pre) s))"

definition SOLANA :: "string \<Rightarrow> bool" where
  "SOLANA s = prefixed [] base58 32 44 s"

definition BITCOIN :: "string \<Rightarrow> bool" where
  "BITCOIN s =
     (prefixed ''1'' alnum 25 33 s \<or> prefixed ''3'' alnum 25 33 s \<or> prefixed ''bc1'' alnum 25 90 s)"

definition EVM :: "string \<Rightarrow> bool" where
  "EVM s = prefixed ''0x'' hex_digit 40 40 s"

definition TRON :: "string \<Rightarrow> bool" where
  "TRON s = prefixed ''T'' alnum 33 33 s"

definition near_account :: "string \<Rightarrow> string \<Rightarrow> bool" where
  "near_account suffix s =
     (endsWith s suffix
      \<and> prefixed [] near_char 2 64 (take (length s - length suffix) s))"

definition NEAR :: "string \<Rightarrow> bool" where
  "NEAR s =
     (near_account ''.near'' s \<or> near_account ''.testnet'' s \<or> prefixed [] lower_hex 64 64 s)"

definition COSMOS :: "string \<Rightarrow> bool" where
  "COSMOS s = prefixed ''cosmos'' lower_alnum 39 39 s"

definition OSMOSIS :: "string \<Rightarrow> bool" where
  "OSMOSIS s = prefixed ''osmo'' lower_alnum 39 39 s"

text \<open>
  The object that \<open>detectChainFromAddress\<close> returns. \<open>nativeToken\<close>, \<open>rpcKey\<close>,
  \<open>evmCandidates\<close> and the text of \<open>note\<close> are display data that no modelled function
  reads; they are left out.
\<close>

record chain_info =
  chain :: string
  chainId :: "nat option"
  confidence :: string
  unsupported :: bool

definition detectEVMChainFromContext :: "string \<Rightarrow> chain_info" where
  "detectEVMChainFromContext hint =
     (if str_includes hint ''base''
      then \<lparr>chain = ''base'', chainId = Some 8453, confidence = ''high'', unsupported = False\<rparr>
      else if str_includes hint ''celo''
      then \<lparr>chain = ''celo'', chainId = Some 42220, confidence = ''high'', unsupported = False\<rparr>
      else if str_includes hint ''polygon'' \<or> str_includes hint ''matic''
      then \<lparr>chain = ''polygon'', chainId = Some 137, confidence = ''high'', unsupported = False\<rparr>
      else if str_includes hint ''arbitrum''
      then \<lparr>chain = ''arbitrum'', chainId = Some 42161, confidence = ''high'', unsupported = False\<rparr>
      else if str_includes hint ''optimism''
      then \<lparr>chain = ''optimism'', chainId = Some 10, confidence = ''high'', unsupported = False\<rparr>
      else if str_includes hint ''avalanche'' \<or> str_includes hint ''avax''
      then \<lparr>chain = ''avalanche'', chainId = Some 43114, confidence = ''high'', unsupported = False\<rparr>
      else if str_includes hint ''bnb'' \<or> str_includes hint ''bsc''
      then \<lparr>chain = ''bnb'', chainId = Some 56, confidence = ''high'', unsupported = False\<rparr>
      else \<lparr>chain = ''ethereum'', chainId = Some 1, confidence = ''medium'', unsupported = False\<rparr>)"

definition detectChainFromAddress :: "platform \<Rightarrow> string \<Rightarrow> string \<Rightarrow> chain_info" where
  "detectChainFromAddress pf address contextHint =
     (let addr = trim pf address
      in if SOLANA addr \<and> \<not> startsWith addr ''0x''
         then \<lparr>chain = ''solana'', chainId = None, confidence = ''high'', unsupported = False\<rparr>
         else if EVM addr then detectEVMChainFromContext (toLowerCase pf contextHint)
         else if BITCOIN addr
         then \<lparr>chain = ''bitcoin'', chainId = None, confidence = ''high'', unsupported = True\<rparr>
         else if TRON addr
         then \<lparr>chain = ''tron'', chainId = None, confidence = ''high'', unsupported = False\<rparr>
         else if NEAR addr
         then \<lparr>chain = ''near'', chainId = None, confidence = ''high'', unsupported = False\<rparr>
         else if COSMOS addr
         then \<lparr>chain = ''cosmos'', chainId = None, confidence = ''high'', unsupported = False\<rparr>
         else if OSMOSIS addr
         then \<lparr>chain = ''osmosis'', chainId = None, confidence = ''high'', unsupported = False\<rparr>
         else \<lparr>chain = ''unknown'', chainId = None, confidence = ''low'', unsupported = False\<rparr>)"

text \<open>\<open>validateAddressForChain\<close>: \<open>None\<close> is \<open>{valid: true}\<close>, \<open>Some reason\<close> is
  \<open>{valid: false, reason}\<close>.\<close>

datatype address_reason =
    InvalidSolana
  | InvalidEVM string
  | InvalidTron
  | ChainNotSupported string

definition validateAddressForChain ::
  "platform \<Rightarrow> string \<Rightarrow> string \<Rightarrow> address_reason option" where
  "validateAddressForChain pf address c =
     (if c = ''solana'' then (if SOLANA (trim pf address) then None else Some InvalidSolana)
      else if c \<in> set [''ethereum'', ''base'', ''celo'', ''polygon'', ''arbitrum'', ''optimism'',
                       ''bnb'', ''avalanche'']
      then (if EVM (trim pf address) then None else Some (InvalidEVM c))
      else if c = ''tron'' then (if TRON (trim pf address) then None else Some InvalidTron)
      else Some (ChainNotSupported c))"

section \<open>Guardrail validation (validator.js)\<close>

definition TOKEN_SUPPORT_MATRIX :: "string \<Rightarrow> (string \<times> bool) list option" where
  "TOKEN_SUPPORT_MATRIX = map_of
     [(''solana'', [(''USDC'', True), (''USDT'', True), (''USDm'', False), (''CELO'', False)]),
      (''base'', [(''USDC'', True), (''USDT'', True), (''USDm'', False), (''CELO'', False)]),
      (''ethereum'', [(''USDC'', True), (''USDT'', True), (''USDm'', False), (''CELO'', False)]),
      (''polygon'', [(''USDC'', True), (''USDT'', True), (''USDm'', False), (''CELO'', False)]),
      (''arbitrum'', [(''USDC'', True), (''USDT'', True), (''USDm'', False), (''CELO'', False)]),
      (''celo'', [(''USDC'', True), (''USDT'', True), (''USDm'', True), (''CELO'', True)]),
      (''optimism'', [(''USDC'', True), (''USDT'', True), (''USDm'', False), (''CELO'', False)]),
      (''bnb'', [(''USDC'', True), (''USDT'', True), (''USDm'', False), (''CELO'', False)]),
      (''tron'', [(''USDC'', False), (''USDT'', True), (''USDm'', False), (''CELO'', False)])]"

definition HIGH_FEE_PERCENT :: jsnum where "HIGH_FEE_PERCENT = Fin 5"
definition LOW_LIQUIDITY_RATIO :: jsnum where "LOW_LIQUIDITY_RATIO = Fin 2"
definition MIN_TRANSFER_USD :: jsnum where "MIN_TRANSFER_USD = Fin 1"
definition MAX_SINGLE_TX_USD :: jsnum where "MAX_SINGLE_TX_USD = Fin 50000"

text \<open>
  A parsed transfer intent. Optional properties are options; \<open>validateTransfer\<close> and the
  orchestrator give \<open>fromChain\<close> the default "celo".
\<close>

record transfer_intent =
  toAddress :: string
  token :: string
  amount :: jsnum
  fromChain :: "string option"
  toChain :: "string option"
  priority :: "string option"
  fromAddress :: "string option"
  rawMessage :: "string option"

text \<open>
  The entries of \<open>errors\<close>, \<open>warnings\<close> and \<open>suggestions\<close>: one constructor for each
  template string, carrying the values that the template interpolates.
  \<open>CannotIdentifyChain\<close> carries the address, of which the message shows the first ten
  characters.
\<close>

datatype verror =
    CannotIdentifyChain string
  | AddressValidationFailed address_reason
  | TokenNotSupported string string
  | AmountNotPositive
  | BelowMinimum jsnum
  | NoBridgeRoute string string "string option"
  | UsdmOnlyOnCelo

datatype vwarning =
    TokenSupportUnavailable "string option"
  | LargeTransfer jsnum
  | HighBridgeFee jsnum jsnum
  | LowLiquidityOn string jsnum jsnum
  | LowSuccessRate string jsnum
  | SameAddress

datatype vsuggestion =
    CopyFullAddress
  | UseSupportedToken string "string list"
  | TryDifferentToken
  | WaitOrOtherBridge
  | OtherBridgeOrSplit
  | SwapUsdmFirst
  | TestingSelfTransfer

text \<open>
  The verdict. \<open>summary\<close> is a rendering of the three lists as text and is left out.
\<close>

record verdict =
  valid :: bool
  detectedChain :: chain_info
  errors :: "verror list"
  warnings :: "vwarning list"
  suggestions :: "vsuggestion list"

text \<open>
  The six checks of \<open>validateTransfer\<close>, in the order of the source; each returns what it
  pushes to \<open>errors\<close>, \<open>warnings\<close> and \<open>suggestions\<close>.
\<close>

type_synonym findings = "verror list \<times> vwarning list \<times> vsuggestion list"

definition check_address :: "platform \<Rightarrow> transfer_intent \<Rightarrow> chain_info \<Rightarrow> findings" where
  "check_address pf intent detected =
     (if chain detected = ''unknown''
      then ([CannotIdentifyChain (toAddress intent)], [], [CopyFullAddress])
      else
        (case validateAddressForChain pf (toAddress intent) (chain detected) of
           Some reason \<Rightarrow> ([AddressValidationFailed reason], [], [])
         | None \<Rightarrow> ([], [], [])))"

definition validation_chain :: "transfer_intent \<Rightarrow> chain_info \<Rightarrow> string option" where
  "validation_chain intent detected =
     (if chain detected \<noteq> ''unknown'' then Some (chain detected) else toChain intent)"

definition check_token :: "transfer_intent \<Rightarrow> string option \<Rightarrow> findings" where
  "check_token intent c =
     (case c of
        None \<Rightarrow> ([], [TokenSupportUnavailable c], [])
      | Some n \<Rightarrow>
          (case TOKEN_SUPPORT_MATRIX n of
             None \<Rightarrow> ([], [TokenSupportUnavailable c], [])
           | Some tokenSupport \<Rightarrow>
               (if map_of tokenSupport (token intent) = Some True then ([], [], [])
                else
                  (let supported = map fst (filter snd tokenSupport)
                   in ([TokenNotSupported (token intent) n], [],
                       if length supported > 0 then [UseSupportedToken n supported] else [])))))"

definition check_amount :: "transfer_intent \<Rightarrow> findings" where
  "check_amount intent =
     ((if \<not> truthy (amount intent) \<or> js_le (amount intent) (Fin 0)
       then [AmountNotPositive] else [])
      @ (if js_lt (amount intent) MIN_TRANSFER_USD then [BelowMinimum MIN_TRANSFER_USD] else []),
      (if js_gt (amount intent) MAX_SINGLE_TX_USD then [LargeTransfer (amount intent)] else []),
      [])"

definition check_bridge :: "transfer_intent \<Rightarrow> string option \<Rightarrow> quote option \<Rightarrow> findings" where
  "check_bridge intent c bridgeQuote =
     (case bridgeQuote of
        None \<Rightarrow>
          ([NoBridgeRoute (token intent)
              (case fromChain intent of None \<Rightarrow> ''celo'' | Some f \<Rightarrow> f) c],
           [], [TryDifferentToken])
      | Some q \<Rightarrow>
          (let feePercent = js_mul (js_div (feeUSD q) (amount intent)) (Fin 100);
               high = js_gt feePercent HIGH_FEE_PERCENT;
               low = js_lt (liquidityUSD q) (js_mul (amount intent) LOW_LIQUIDITY_RATIO);
               risky = js_lt (successRate q) (lit 0.95)
           in ([],
               (if high then [HighBridgeFee feePercent (feeUSD q)] else [])
               @ (if low then [LowLiquidityOn (bridge q) (liquidityUSD q) (amount intent)] else [])
               @ (if risky then [LowSuccessRate (bridge q) (successRate q)] else []),
               (if high then [WaitOrOtherBridge] else [])
               @ (if low then [OtherBridgeOrSplit] else []))))"

definition check_usdm :: "transfer_intent \<Rightarrow> string option \<Rightarrow> findings" where
  "check_usdm intent c =
     (if token intent = ''USDm'' \<and> c \<noteq> Some ''celo''
      then ([UsdmOnlyOnCelo], [], [SwapUsdmFirst]) else ([], [], []))"

definition check_self_transfer ::
  "platform \<Rightarrow> transfer_intent \<Rightarrow> string option \<Rightarrow> findings" where
  "check_self_transfer pf intent c =
     (let fromAddr = map_option (toLowerCase pf) (fromAddress intent);
          toAddr = toLowerCase pf (toAddress intent)
      in if truthy_str fromAddr \<and> toAddr \<noteq> [] \<and> fromAddr = Some toAddr
            \<and> Some (case fromChain intent of None \<Rightarrow> ''celo'' | Some f \<Rightarrow> f) = c
         then ([], [SameAddress], [TestingSelfTransfer]) else ([], [], []))"

definition validateTransfer :: "platform \<Rightarrow> transfer_intent \<Rightarrow> quote option \<Rightarrow> verdict" where
  "validateTransfer pf intent bridgeQuote =
     (let detected =
            detectChainFromAddress pf (toAddress intent)
              (case rawMessage intent of None \<Rightarrow> [] | Some m \<Rightarrow> m);
          c = validation_chain intent detected;
          found =
            [check_address pf intent detected, check_token intent c, check_amount intent,
             check_bridge intent c bridgeQuote, check_usdm intent c,
             check_self_transfer pf intent c];
          errs = concat (map fst found);
          warns = concat (map (fst \<circ> snd) found);
          suggs = concat (map (snd \<circ> snd) found)
      in \<lparr>valid = (length errs = 0), detectedChain = detected, errors = errs,
           warnings = warns, suggestions = suggs\<rparr>)"

section \<open>The orchestrator (orchestrator.js)\<close>

text \<open>
  The values of \<open>session.state\<close> and of the \<open>state\<close> of a response: "idle",
  "awaiting_confirmation", "executing" and "error".
\<close>

datatype session_state = Idle | Awaiting_confirmation | Executing | Error_state

record turn =
  role :: string
  content :: string

record pending_transaction =
  intent :: transfer_intent
  bridgeQuote :: quote
  chainInfo :: chain_info
  validation :: verdict
  allQuotes :: "quote list"

record alert_intent =
  condition :: string
  threshold :: "jsnum option"
  alert_token :: "string option"
  targetChain :: "string option"
  action :: string
  alert_fromChain :: "string option"
  alert_amount :: "jsnum option"

text \<open>An entry of \<open>session.alerts\<close>: \<open>{id, ...intent, createdAt}\<close>.\<close>

record session_alert =
  alert_id :: string
  alert_spec :: alert_intent
  alert_createdAt :: string

record session =
  sessionId :: string
  state :: session_state
  walletAddress :: "string option"
  connectedChain :: nat
  history :: "turn list"
  pendingTransaction :: "pending_transaction option"
  alerts :: "session_alert list"
  createdAt :: string

record wallet_info =
  address :: "string option"
  wallet_chainId :: "nat option"

record swap_intent =
  fromToken :: string
  toToken :: string
  swap_amount :: jsnum
  swap_fromChain :: "string option"
  swap_toChain :: "string option"
  swap_toAddress :: string
  swap_priority :: "string option"

record query_intent =
  queryType :: string
  query_token :: string
  query_chain :: string

record clarification =
  missingFields :: "string list"
  partial_amount :: "jsnum option"
  partial_token :: "string option"

text \<open>The tagged union that \<open>parseIntent\<close> returns, by its \<open>type\<close> property.\<close>

datatype parsed_intent =
    Transfer transfer_intent
  | Swap_and_transfer swap_intent
  | Alert alert_intent
  | Query query_intent
  | Clarification_needed clarification
  | Unrecognised

text \<open>
  The \<open>message\<close> of a response: one constructor for each message of the source, carrying
  the values that its template interpolates.
\<close>

datatype reply =
    HelpText
  | SomethingWentWrong
  | AskDestinationChain
  | UnsupportedChain string
  | SolanaNotInstalled string
  | NoWorkingRoute string string "route_warning list"
  | Explained string
  | FeeTooHigh string jsnum jsnum jsnum
  | Preview string "route_warning list" "vwarning list" "vsuggestion list"
  | Cancelled
  | PleaseReply
  | TransferSubmitted string
  | TransferFailed string
  | NoSwapRoute string string
  | AlertRegistered string alert_intent
  | NoRouteForQuery string string
  | CurrentFees string string quote
  | QueryHelp
  | NeedAddressAndAmount
  | NeedAddress "jsnum option" "string option"
  | NeedAmount
  | NeedToken
  | NeedMoreDetail

text \<open>
  A response \<open>{message, state}\<close>. Its \<open>data\<close> and \<open>error\<close> properties repeat values of
  the call for the user interface and are left out.
\<close>

record response =
  message :: reply
  reply_state :: session_state

text \<open>
  What the wallet, the token contract and the bridge do during one \<open>executeTransfer\<close>:
  an error text where the step throws, the transaction hash where it succeeds.
\<close>

record exec_env =
  wallet_error :: "string option"
  units_error :: "string option"
  approve_result :: "string + string"
  transfer_result :: "string + string"

text \<open>
  Everything outside the process that one call of \<open>handleUserMessage\<close> consults: the
  intent that \<open>parseIntent\<close> returns for the message, the provider APIs, the swap router
  (\<open>None\<close> is no route, \<open>Some\<close> carries the price impact), the texts that the language
  model or its local fallback writes, the chain, the clock, and the rendering of a reply as
  text.
\<close>

record env =
  parsed :: parsed_intent
  net :: apis
  swapRoute :: "jsnum option"
  preview_text :: string
  explanation :: string
  exec :: exec_env
  now_ms :: string
  now_iso :: string
  render :: "reply \<Rightarrow> string"

text \<open>A call either returns or throws; the session it mutated is kept in both cases.\<close>

datatype 'a outcome = Returned 'a | Thrown string

definition createSession :: "string \<Rightarrow> wallet_info \<Rightarrow> string \<Rightarrow> session" where
  "createSession sid walletInfo now =
     \<lparr>sessionId = sid, state = Idle,
      walletAddress = (if truthy_str (address walletInfo) then address walletInfo else None),
      connectedChain =
        (case wallet_chainId walletInfo of None \<Rightarrow> 42220
         | Some n \<Rightarrow> if n \<noteq> 0 then n else 42220),
      history = [], pendingTransaction = None, alerts = [], createdAt = now\<rparr>"

fun join :: "string \<Rightarrow> string list \<Rightarrow> string" where
  "join sep [] = []"
| "join sep [x] = x"
| "join sep (x # y # ys) = x @ sep @ join sep (y # ys)"

definition default_chain :: "string option \<Rightarrow> string" where
  "default_chain c = (case c of None \<Rightarrow> ''celo'' | Some f \<Rightarrow> f)"

text \<open>Steps 1 and 2 of \<open>processTransfer\<close>: the detected chain and the ranked routes.\<close>

definition transfer_chain :: "platform \<Rightarrow> session \<Rightarrow> transfer_intent \<Rightarrow> chain_info" where
  "transfer_chain pf s i =
     detectChainFromAddress pf (toAddress i) (join '' '' (map content (history s)))"

definition transfer_routes :: "platform \<Rightarrow> env \<Rightarrow> session \<Rightarrow> transfer_intent \<Rightarrow> ranked_routes" where
  "transfer_routes pf e s i =
     getBestBridgeRoute pf (net e) (default_chain (fromChain i)) (chain (transfer_chain pf s i))
       (token i) (amount i) (priority i)"

definition processTransfer ::
  "platform \<Rightarrow> env \<Rightarrow> session \<Rightarrow> transfer_intent \<Rightarrow> session \<times> response" where
  "processTransfer pf e s i =
     (let info = transfer_chain pf s i;
          dest = chain info
      in if dest = ''unknown'' then (s, \<lparr>message = AskDestinationChain, reply_state = Idle\<rparr>)
         else if unsupported info
         then (s, \<lparr>message = UnsupportedChain dest, reply_state = Idle\<rparr>)
         else
           (let routes = transfer_routes pf e s i
            in case best routes of
                 None \<Rightarrow>
                   (if dest = ''solana''
                    then (s, \<lparr>message = SolanaNotInstalled (token i), reply_state = Idle\<rparr>)
                    else (s, \<lparr>message = NoWorkingRoute (token i) dest (route_warnings routes),
                               reply_state = Idle\<rparr>))
               | Some q \<Rightarrow>
                   (let checked = validateTransfer pf (i\<lparr>toChain := Some dest\<rparr>) (Some q)
                    in if \<not> valid checked
                       then (s, \<lparr>message = Explained (explanation e), reply_state = Idle\<rparr>)
                       else
                         (let feeRatio = js_div (feeUSD q) (amount i)
                          in if js_gt feeRatio (lit 0.25)
                             then (s, \<lparr>message = FeeTooHigh (bridge q) (feeUSD q) feeRatio (amount i),
                                        reply_state = Idle\<rparr>)
                             else
                               (let fullMessage =
                                      Preview (preview_text e) (route_warnings routes)
                                        (warnings checked) (suggestions checked)
                                in (s\<lparr>pendingTransaction :=
                                         Some \<lparr>intent = i\<lparr>toChain := Some dest\<rparr>, bridgeQuote = q,
                                               chainInfo = info, validation = checked,
                                               allQuotes = all_ranked routes\<rparr>,
                                       state := Awaiting_confirmation,
                                       history := history s
                                         @ [\<lparr>role = ''assistant'', content = render e fullMessage\<rparr>]\<rparr>,
                                    \<lparr>message = fullMessage,
                                     reply_state = Awaiting_confirmation\<rparr>))))))"

definition BRIDGE_CONTRACTS :: "string \<Rightarrow> (string \<times> string) list option" where
  "BRIDGE_CONTRACTS = map_of
     [(''across_relay'',
         [(''celo'', ''ACROSS_SPOKE_POOL_CELO_ADDRESS''), (''base'', ''ACROSS_SPOKE_POOL_BASE_ADDRESS''),
          (''ethereum'', ''ACROSS_SPOKE_POOL_ETH_ADDRESS'')]),
      (''axelar_gmp'', [(''celo'', ''0xe432150cce91c13a887f7D836923d5597adD8E31'')]),
      (''celer_cbridge'', [(''celo'', ''CELER_CBRIDGE_CELO_ADDRESS'')])]"

definition getBridgeContractAddress :: "string \<Rightarrow> string \<Rightarrow> string option" where
  "getBridgeContractAddress method c =
     (case BRIDGE_CONTRACTS method of None \<Rightarrow> None | Some t \<Rightarrow> map_of t c)"

datatype exec_failure =
    WalletSetupFailed string
  | TokenNotConfigured string string
  | UnitsFailed string
  | BridgeContractUnknown string
  | ApproveFailed string
  | BridgeTransferFailed string
  | MethodNotImplemented string

text \<open>
  The \<open>try\<close> block of \<open>executeTransfer\<close>: the first step that throws ends it, otherwise it
  yields the hash of the bridge transaction.
\<close>

definition executeTransfer_try ::
  "platform \<Rightarrow> exec_env \<Rightarrow> pending_transaction \<Rightarrow> exec_failure + string" where
  "executeTransfer_try pf x p =
     (let src = default_chain (fromChain (intent p));
          q = bridgeQuote p
      in case wallet_error x of
           Some m \<Rightarrow> Inl (WalletSetupFailed m)
         | None \<Rightarrow>
             (if \<not> truthy_str (TOKENS pf (toUpperCase pf src) (token (intent p)))
              then Inl (TokenNotConfigured (token (intent p)) src)
              else
                (case units_error x of
                   Some m \<Rightarrow> Inl (UnitsFailed m)
                 | None \<Rightarrow>
                     (if \<not> truthy_str (getBridgeContractAddress (executionMethod q) src)
                      then Inl (BridgeContractUnknown (bridge q))
                      else
                        (case approve_result x of
                           Inl m \<Rightarrow> Inl (ApproveFailed m)
                         | Inr approveHash \<Rightarrow>
                             (if executionMethod q \<in> set [''across_relay'', ''wormhole_ntt'',
                                   ''axelar_gmp'', ''celer_cbridge'', ''layerzero_stargate'']
                              then (case transfer_result x of
                                      Inl m \<Rightarrow> Inl (BridgeTransferFailed m)
                                    | Inr transferTxHash \<Rightarrow> Inr transferTxHash)
                              else Inl (MethodNotImplemented (executionMethod q))))))))"

text \<open>
  \<open>executeTransfer\<close> reads \<open>session.pendingTransaction\<close> before its \<open>try\<close>: on \<open>null\<close>
  that is a TypeError which the caller sees.
\<close>

definition executeTransfer :: "platform \<Rightarrow> env \<Rightarrow> session \<Rightarrow> session \<times> response outcome" where
  "executeTransfer pf e s =
     (case pendingTransaction s of
        None \<Rightarrow> (s, Thrown ''TypeError'')
      | Some p \<Rightarrow>
          (case executeTransfer_try pf (exec e) p of
             Inr transferTxHash \<Rightarrow>
               (s\<lparr>state := Idle, pendingTransaction := None,
                   history := history s
                     @ [\<lparr>role = ''assistant'', content = ''Transfer submitted: '' @ transferTxHash\<rparr>]\<rparr>,
                Returned \<lparr>message = TransferSubmitted transferTxHash, reply_state = Idle\<rparr>)
           | Inl failure \<Rightarrow>
               (s\<lparr>state := Idle\<rparr>,
                Returned \<lparr>message = TransferFailed (explanation e), reply_state = Error_state\<rparr>)))"

definition YES_WORDS :: "string list" where
  "YES_WORDS = [''yes'', ''y'', ''confirm'', ''ok'', ''sure'', ''proceed'', ''execute'', ''go'']"

definition NO_WORDS :: "string list" where
  "NO_WORDS = [''no'', ''n'', ''cancel'', ''stop'', ''abort'', ''nevermind'']"

definition isYes :: "string \<Rightarrow> bool" where
  "isYes msg = list_ex (\<lambda>w. str_includes msg w) YES_WORDS"

definition isNo :: "string \<Rightarrow> bool" where
  "isNo msg = list_ex (\<lambda>w. str_includes msg w) NO_WORDS"

definition handleConfirmation ::
  "platform \<Rightarrow> env \<Rightarrow> session \<Rightarrow> string \<Rightarrow> session \<times> response outcome" where
  "handleConfirmation pf e s userMessage =
     (let msg = toLowerCase pf (trim pf userMessage)
      in if isYes msg then executeTransfer pf e (s\<lparr>state := Executing\<rparr>)
         else if isNo msg
         then (s\<lparr>state := Idle, pendingTransaction := None\<rparr>,
               Returned \<lparr>message = Cancelled, reply_state = Idle\<rparr>)
         else (s, Returned \<lparr>message = PleaseReply, reply_state = Awaiting_confirmation\<rparr>))"

definition processSwapAndTransfer ::
  "platform \<Rightarrow> env \<Rightarrow> session \<Rightarrow> swap_intent \<Rightarrow> session \<times> response" where
  "processSwapAndTransfer pf e s i =
     (case swapRoute e of
        None \<Rightarrow> (s, \<lparr>message = NoSwapRoute (fromToken i) (toToken i), reply_state = Idle\<rparr>)
      | Some priceImpact \<Rightarrow>
          processTransfer pf e s
            \<lparr>toAddress = swap_toAddress i, token = toToken i,
             amount = js_mul (swap_amount i) (js_sub (Fin 1) priceImpact),
             fromChain = swap_fromChain i,
             toChain = swap_toChain i, priority = swap_priority i, fromAddress = None,
             rawMessage = None\<rparr>)"

text \<open>The orchestrator's own \<open>registerAlert(session, intent)\<close>.\<close>

definition registerAlert :: "env \<Rightarrow> session \<Rightarrow> alert_intent \<Rightarrow> session \<times> response" where
  "registerAlert e s i =
     (let alertId = ''alert_'' @ now_ms e
      in (s\<lparr>alerts := alerts s
               @ [\<lparr>alert_id = alertId, alert_spec = i, alert_createdAt = now_iso e\<rparr>]\<rparr>,
          \<lparr>message = AlertRegistered alertId i, reply_state = Idle\<rparr>))"

definition handleQuery :: "platform \<Rightarrow> env \<Rightarrow> session \<Rightarrow> query_intent \<Rightarrow> session \<times> response" where
  "handleQuery pf e s i =
     (if queryType i = ''fee_check''
      then
        (case best (getBestBridgeRoute pf (net e) ''celo'' (query_chain i) (query_token i) (Fin 100)
                      (Some ''cheapest'')) of
           None \<Rightarrow> (s, \<lparr>message = NoRouteForQuery (query_token i) (query_chain i),
                        reply_state = Idle\<rparr>)
         | Some q \<Rightarrow> (s, \<lparr>message = CurrentFees (query_token i) (query_chain i) q,
                          reply_state = Idle\<rparr>))
      else (s, \<lparr>message = QueryHelp, reply_state = Idle\<rparr>))"

definition handleClarification :: "session \<Rightarrow> clarification \<Rightarrow> session \<times> response" where
  "handleClarification s i =
     (let missing = missingFields i
      in if ''toAddress'' \<in> set missing \<and> ''amount'' \<in> set missing
         then (s, \<lparr>message = NeedAddressAndAmount, reply_state = Idle\<rparr>)
         else if ''toAddress'' \<in> set missing
         then (s, \<lparr>message = NeedAddress (partial_amount i) (partial_token i), reply_state = Idle\<rparr>)
         else if ''amount'' \<in> set missing then (s, \<lparr>message = NeedAmount, reply_state = Idle\<rparr>)
         else if ''token'' \<in> set missing then (s, \<lparr>message = NeedToken, reply_state = Idle\<rparr>)
         else (s, \<lparr>message = NeedMoreDetail, reply_state = Idle\<rparr>))"

section \<open>The alert engine (alertEngine.js)\<close>

text \<open>An entry of the registry \<open>activeAlerts\<close>.\<close>

record standing_alert =
  spec :: alert_intent
  owner :: string
  alertId :: string
  triggered :: bool
  registeredAt :: string
  triggeredAt :: "string option"

text \<open>
  The two module-level registries of the process. \<open>activeAlerts\<close> is a \<open>Map\<close>, whose
  iteration order is the insertion order: an association list.
\<close>

record world =
  activeSessions :: "string \<rightharpoonup> session"
  activeAlerts :: "(string \<times> standing_alert) list"

text \<open>\<open>Map.prototype.set\<close>: an existing key keeps its place, a new key goes last.\<close>

fun map_set :: "'k \<Rightarrow> 'v \<Rightarrow> ('k \<times> 'v) list \<Rightarrow> ('k \<times> 'v) list" where
  "map_set k v [] = [(k, v)]"
| "map_set k v ((k', v') # rest) =
     (if k' = k then (k, v) # rest else (k', v') # map_set k v rest)"

text \<open>The alert engine's \<open>registerAlert(sessionId, alertIntent)\<close>.\<close>

definition alertEngine_registerAlert ::
  "world \<Rightarrow> string \<Rightarrow> alert_intent \<Rightarrow> string \<Rightarrow> string \<Rightarrow> world \<times> string" where
  "alertEngine_registerAlert w sid alertIntent nowMs nowIso =
     (let newId = sid @ ''_'' @ nowMs
      in (w\<lparr>activeAlerts :=
               map_set newId
                 \<lparr>spec = alertIntent, owner = sid, alertId = newId, triggered = False,
                  registeredAt = nowIso, triggeredAt = None\<rparr>
                 (activeAlerts w)\<rparr>,
          newId))"

definition cancelAlert :: "world \<Rightarrow> string \<Rightarrow> world \<times> bool" where
  "cancelAlert w k =
     (w\<lparr>activeAlerts := filter (\<lambda>entry. fst entry \<noteq> k) (activeAlerts w)\<rparr>,
      k \<in> fst ` set (activeAlerts w))"

text \<open>
  What one evaluation of a condition reads from outside: the provider APIs, the price that
  \<open>getTokenPrice\<close> returns for a token symbol (\<open>None\<close> is \<open>null\<close>) and the transfer cost
  in USD that \<open>getGasPrices\<close> reports for a chain (\<open>None\<close> when the chain has no entry).
\<close>

record market =
  provider_apis :: apis
  token_price :: "string \<Rightarrow> jsnum option"
  gas_cost :: "string \<Rightarrow> jsnum option"

text \<open>\<open>getCurrentBridgeFees(...).minFeeUSD\<close>: \<open>null\<close> when there is no quote.\<close>

definition minFeeUSD ::
  "platform \<Rightarrow> apis \<Rightarrow> string \<Rightarrow> string \<Rightarrow> string \<Rightarrow> jsnum \<Rightarrow> jsnum option" where
  "minFeeUSD pf api src dst tok amt =
     (case all_ranked (getBestBridgeRoute pf api src dst tok amt (Some ''cheapest'')) of
        [] \<Rightarrow> None
      | q # qs \<Rightarrow> Some (Math_min (map feeUSD (q # qs))))"

text \<open>
  An absent property used as a key or as a chain name is the string "undefined"; an
  absent threshold makes every comparison false; \<open>v || d\<close> is \<open>or_default v d\<close>.
  \<open>getTokenPrice\<close> calls
  \<open>toUpperCase\<close> on its argument before its \<open>try\<close>, which throws on an absent token.
\<close>

definition or_default :: "string option \<Rightarrow> string \<Rightarrow> string" where
  "or_default v d = (case v of None \<Rightarrow> d | Some t \<Rightarrow> if t \<noteq> [] then t else d)"

definition or_undefined :: "string option \<Rightarrow> string" where
  "or_undefined v = (case v of None \<Rightarrow> ''undefined'' | Some t \<Rightarrow> t)"

definition below :: "jsnum option \<Rightarrow> jsnum option \<Rightarrow> bool" where
  "below v limit = (case (v, limit) of (Some x, Some t) \<Rightarrow> js_lt x t | _ \<Rightarrow> False)"

definition above :: "jsnum option \<Rightarrow> jsnum option \<Rightarrow> bool" where
  "above v limit = (case (v, limit) of (Some x, Some t) \<Rightarrow> js_gt x t | _ \<Rightarrow> False)"

definition checkPriceAlert :: "platform \<Rightarrow> market \<Rightarrow> standing_alert \<Rightarrow> bool outcome" where
  "checkPriceAlert pf mk a =
     (if triggered a then Returned False
      else if condition (spec a) = ''fee_below''
      then Returned
        (below
           (minFeeUSD pf (provider_apis mk)
              (or_default (alert_fromChain (spec a)) ''celo'')
              (or_undefined (targetChain (spec a)))
              (or_default (alert_token (spec a)) ''USDC'')
              (case alert_amount (spec a) of
                 None \<Rightarrow> Fin 100 | Some n \<Rightarrow> if truthy n then n else Fin 100))
           (threshold (spec a)))
      else if condition (spec a) = ''price_below''
      then (case alert_token (spec a) of
              None \<Rightarrow> Thrown ''TypeError''
            | Some t \<Rightarrow> Returned (below (token_price mk t) (threshold (spec a))))
      else if condition (spec a) = ''price_above''
      then (case alert_token (spec a) of
              None \<Rightarrow> Thrown ''TypeError''
            | Some t \<Rightarrow> Returned (above (token_price mk t) (threshold (spec a))))
      else if condition (spec a) = ''gas_below''
      then Returned (below (gas_cost mk (or_undefined (targetChain (spec a)))) (threshold (spec a)))
      else Returned False)"

text \<open>
  One run of the interval callback of \<open>startAlertPolling\<close> over the entries of the
  registry, in order. Each evaluation reads the outside world anew (\<open>mk\<close>, by alert id).
  \<open>cb_throws\<close> tells for which alert the awaited \<open>onAlertTriggered\<close> throws. The result
  is the registry after the run, the alerts handed to the callback, in order, and whether
  the loop ran to its end: an evaluation or a callback that throws ends the run there.
  This is a run taken alone. \<open>setInterval\<close> starts the next run after 60 seconds
  whether or not the earlier one has finished its awaits, and nothing here says how two
  runs interleave.
\<close>

fun poll_alerts ::
  "platform \<Rightarrow> (string \<Rightarrow> market) \<Rightarrow> (string \<Rightarrow> bool) \<Rightarrow> string
    \<Rightarrow> (string \<times> standing_alert) list
    \<Rightarrow> (string \<times> standing_alert) list \<times> (string \<times> standing_alert) list \<times> bool" where
  "poll_alerts pf mk cb_throws now [] = ([], [], True)"
| "poll_alerts pf mk cb_throws now ((k, a) # rest) =
     (if triggered a
      then (case poll_alerts pf mk cb_throws now rest of
              (rest', fired, finished) \<Rightarrow> ((k, a) # rest', fired, finished))
      else
        (case checkPriceAlert pf (mk k) a of
           Thrown m \<Rightarrow> ((k, a) # rest, [], False)
         | Returned conditionMet \<Rightarrow>
             (if conditionMet
              then
                (let a' = a\<lparr>triggered := True, triggeredAt := Some now\<rparr>
                 in if cb_throws k then ((k, a') # rest, [(k, a')], False)
                    else (case poll_alerts pf mk cb_throws now rest of
                            (rest', fired, finished) \<Rightarrow>
                              ((k, a') # rest', (k, a') # fired, finished)))
              else (case poll_alerts pf mk cb_throws now rest of
                      (rest', fired, finished) \<Rightarrow> ((k, a) # rest', fired, finished)))))"

section \<open>The chat entry point (orchestrator.js)\<close>

definition route_intent :: "platform \<Rightarrow> env \<Rightarrow> session \<Rightarrow> session \<times> response" where
  "route_intent pf e s =
     (case parsed e of
        Transfer i \<Rightarrow> processTransfer pf e s i
      | Swap_and_transfer i \<Rightarrow> processSwapAndTransfer pf e s i
      | Alert i \<Rightarrow> registerAlert e s i
      | Query i \<Rightarrow> handleQuery pf e s i
      | Clarification_needed i \<Rightarrow> handleClarification s i
      | Unrecognised \<Rightarrow> (s, \<lparr>message = HelpText, reply_state = Idle\<rparr>))"

text \<open>The body of the \<open>try\<close> of \<open>handleUserMessage\<close>.\<close>

definition handle_try ::
  "platform \<Rightarrow> env \<Rightarrow> session \<Rightarrow> string \<Rightarrow> session \<times> response outcome" where
  "handle_try pf e s userMessage =
     (if state s = Awaiting_confirmation then handleConfirmation pf e s userMessage
      else
        (case route_intent pf e (s\<lparr>history := history s @ [\<lparr>role = ''user'', content = userMessage\<rparr>]\<rparr>)
         of (s', r) \<Rightarrow> (s', Returned r)))"

text \<open>\<open>activeSessions.get(sessionId) || createSession(sessionId, walletInfo)\<close>.\<close>

definition current_session :: "env \<Rightarrow> world \<Rightarrow> string \<Rightarrow> wallet_info \<Rightarrow> session" where
  "current_session e w sid walletInfo =
     (case activeSessions w sid of
        Some known \<Rightarrow> known
      | None \<Rightarrow> createSession sid walletInfo (now_iso e))"

definition handleUserMessage ::
  "platform \<Rightarrow> env \<Rightarrow> world \<Rightarrow> string \<Rightarrow> string \<Rightarrow> wallet_info \<Rightarrow> world \<times> response" where
  "handleUserMessage pf e w sid userMessage walletInfo =
     (let s = current_session e w sid walletInfo
      in case handle_try pf e s userMessage of
           (s', Returned r) \<Rightarrow> (w\<lparr>activeSessions := (activeSessions w)(sid \<mapsto> s')\<rparr>, r)
         | (s', Thrown m) \<Rightarrow>
             (w\<lparr>activeSessions := (activeSessions w)(sid \<mapsto> s'\<lparr>state := Idle\<rparr>)\<rparr>,
              \<lparr>message = SomethingWentWrong, reply_state = Error_state\<rparr>))"

text \<open>
  The worlds that chat traffic alone can produce: the empty registries, and every world
  that one more call of \<open>handleUserMessage\<close> makes of such a world.
\<close>

inductive chat_reachable :: "platform \<Rightarrow> world \<Rightarrow> bool" for pf :: platform where
  start: "chat_reachable pf \<lparr>activeSessions = Map.empty, activeAlerts = []\<rparr>"
| message:
    "chat_reachable pf w \<Longrightarrow> chat_reachable pf (fst (handleUserMessage pf e w sid userMessage walletInfo))"

text \<open>The invariant of a session: a stored pending transaction holds a ready quote.\<close>

definition ready_pending :: "session \<Rightarrow> bool" where
  "ready_pending s =
     (case pendingTransaction s of None \<Rightarrow> True | Some p \<Rightarrow> executionReady (bridgeQuote p))"

text \<open>
  A session between two calls: it is idle, or it waits for a confirmation and holds a
  pending transaction.
\<close>

definition at_rest :: "session \<Rightarrow> bool" where
  "at_rest s =
     (if state s = Awaiting_confirmation then pendingTransaction s \<noteq> None else state s = Idle)"

section \<open>Sample data\<close>

text \<open>
  A platform for the examples. The token table holds USDC on Celo. The string built-ins are
  given for ASCII text, on which they do what the engine's do: the letters change case,
  and the white space removed at both ends is tab, line feed, vertical tab, form feed,
  carriage return and space. A list whose order the engine is free to choose is left as it
  is.
\<close>

definition ascii_upper :: "string \<Rightarrow> string" where
  "ascii_upper s =
     map (\<lambda>c. case map_of (zip lower_letters upper_letters) c of Some u \<Rightarrow> u | None \<Rightarrow> c) s"

definition ascii_lower :: "string \<Rightarrow> string" where
  "ascii_lower s =
     map (\<lambda>c. case map_of (zip upper_letters lower_letters) c of Some l \<Rightarrow> l | None \<Rightarrow> c) s"

definition ascii_space :: "char \<Rightarrow> bool" where
  "ascii_space c = ((of_char c :: nat) \<in> {9, 10, 11, 12, 13, 32})"

definition ascii_trim :: "string \<Rightarrow> string" where
  "ascii_trim s = rev (dropWhile ascii_space (rev (dropWhile ascii_space s)))"

definition demo_platform :: platform where
  "demo_platform =
     \<lparr>TOKENS = (\<lambda>c t. if c = ''CELO'' \<and> t = ''USDC''
         then Some ''0xcebA9300f2b948710d2653dD7B07f33A8B32118C'' else None),
      toUpperCase = ascii_upper, toLowerCase = ascii_lower, trim = ascii_trim,
      sort_order = (\<lambda>cmp xs i. i)\<rparr>"

text \<open>
  A transfer of 100 USDC from Celo to a Solana address, for which Wormhole is the only
  provider that quotes; the fee of its quote is a parameter, 0.80 in most examples. The
  theorems below are instantiated with these values.
\<close>

definition demo_fee :: jsnum where
  "demo_fee = lit 0.8"

definition demo_apis :: "jsnum \<Rightarrow> apis" where
  "demo_apis wormholeFee = \<lparr>across_api = Threw,
      wormhole_api = Ok \<lparr>fee_usd = Some wormholeFee, liquidity = None\<rparr>,
      axelar_api = Threw, celer_api = Threw\<rparr>"

definition demo_quote :: "jsnum \<Rightarrow> quote" where
  "demo_quote x = \<lparr>bridge = ''Wormhole'', feeUSD = x, estimatedMinutes = Fin 15,
      successRate = lit 0.97, liquidityUSD = Fin 10000000, executionMethod = ''wormhole_ntt'',
      executionReady = True\<rparr>"

text \<open>A quote as the Axelar adapter builds it, for the examples of the ranking.\<close>

definition axelar_sample :: "jsnum \<Rightarrow> quote" where
  "axelar_sample x = \<lparr>bridge = ''Axelar'', feeUSD = x, estimatedMinutes = Fin 5,
      successRate = lit 0.96, liquidityUSD = Fin 5000000, executionMethod = ''axelar_gmp'',
      executionReady = True\<rparr>"

definition demo_intent :: transfer_intent where
  "demo_intent = \<lparr>toAddress = ''7xKXtg2CW87d97TXJSDpbD5jBkheTqA83TZRuJosgAsU'', token = ''USDC'',
      amount = Fin 100, fromChain = Some ''celo'', toChain = Some ''solana'',
      priority = Some ''cheapest'', fromAddress = None, rawMessage = None\<rparr>"

definition demo_env :: "parsed_intent \<Rightarrow> jsnum \<Rightarrow> env" where
  "demo_env i wormholeFee = \<lparr>parsed = i, net = demo_apis wormholeFee, swapRoute = None,
      preview_text = ''Reply YES to confirm or NO to cancel.'',
      explanation = ''The transfer hit a snag.'',
      exec = \<lparr>wallet_error = None, units_error = None, approve_result = Inr ''0xa1'',
               transfer_result = Inr ''0xb2''\<rparr>,
      now_ms = ''1700000000000'', now_iso = ''2023-11-14T22:13:20.000Z'',
      render = (\<lambda>r. ''...'')\<rparr>"

definition empty_world :: world where
  "empty_world = \<lparr>activeSessions = Map.empty, activeAlerts = []\<rparr>"

definition demo_wallet :: wallet_info where
  "demo_wallet = \<lparr>address = None, wallet_chainId = None\<rparr>"

definition demo_session :: session where
  "demo_session = createSession ''s1'' demo_wallet ''2023-11-14T22:13:20.000Z''"

definition demo_message :: string where
  "demo_message = ''send 100 USDC to 7xKXtg2CW87d97TXJSDpbD5jBkheTqA83TZRuJosgAsU''"

definition demo_pending :: pending_transaction where
  "demo_pending =
     \<lparr>intent = demo_intent\<lparr>toChain := Some ''solana''\<rparr>, bridgeQuote = demo_quote demo_fee,
      chainInfo = \<lparr>chain = ''solana'', chainId = None, confidence = ''high'', unsupported = False\<rparr>,
      validation =
        validateTransfer demo_platform (demo_intent\<lparr>toChain := Some ''solana''\<rparr>)
          (Some (demo_quote demo_fee)),
      allQuotes = [demo_quote demo_fee]\<rparr>"

definition demo_awaiting :: session where
  "demo_awaiting =
     demo_session
       \<lparr>state := Awaiting_confirmation,
        history := [\<lparr>role = ''user'', content = demo_message\<rparr>, \<lparr>role = ''assistant'', content = ''...''\<rparr>],
        pendingTransaction := Some demo_pending\<rparr>"

definition demo_world :: world where
  "demo_world = \<lparr>activeSessions = [''s1'' \<mapsto> demo_awaiting], activeAlerts = []\<rparr>"

definition demo_alert :: alert_intent where
  "demo_alert = \<lparr>condition = ''fee_below'', threshold = Some (Fin 1), alert_token = Some ''USDC'',
      targetChain = Some ''solana'', action = ''notify'', alert_fromChain = None,
      alert_amount = None\<rparr>"

text \<open>
  A fee alert on the same route (threshold 1, while the best fee is 0.80), a price alert
  that names no token, and the outside world of a polling run.
\<close>

definition demo_market :: market where
  "demo_market = \<lparr>provider_apis = demo_apis demo_fee, token_price = (\<lambda>t. None),
      gas_cost = (\<lambda>c. None)\<rparr>"

definition demo_fee_alert :: standing_alert where
  "demo_fee_alert = \<lparr>spec = demo_alert, owner = ''s1'', alertId = ''s1_1700000000000'',
      triggered = False, registeredAt = ''2023-11-14T22:13:20.000Z'', triggeredAt = None\<rparr>"

definition demo_price_alert :: standing_alert where
  "demo_price_alert =
     \<lparr>spec = \<lparr>condition = ''price_below'', threshold = Some (Fin 1), alert_token = None,
              targetChain = None, action = ''notify'', alert_fromChain = None,
              alert_amount = None\<rparr>,
      owner = ''s1'', alertId = ''s1_1690000000000'', triggered = False,
      registeredAt = ''2023-07-22T04:26:40.000Z'', triggeredAt = None\<rparr>"

section \<open>Numbers: proofs\<close>

lemma floor_rat_numeral: "\<lfloor>numeral a / numeral b :: rat\<rfloor> = numeral a div numeral b"
  by (metis floor_divide_of_int_eq of_int_numeral)

lemma floor_rat_neg_numeral: "\<lfloor>- (numeral a / numeral b) :: rat\<rfloor> = - numeral a div numeral b"
  by (metis divide_minus_left floor_divide_of_int_eq of_int_neg_numeral of_int_numeral)

lemma ceiling_rat_numeral: "\<lceil>numeral a / numeral b :: rat\<rceil> = - (- numeral a div numeral b)"
  using ceiling_divide_eq_div [of "numeral a" "numeral b", where ?'a = rat] by simp

text \<open>The rules by which \<open>simp\<close> evaluates the rounding of a given rational.\<close>

lemmas eval_double = to_double_def floor_log2_def round_even_def Let_def compute_bitlen
  power_int_minus floor_rat_numeral floor_rat_neg_numeral ceiling_rat_numeral

lemmas eval_js = js_add_def js_sub_def js_mul_def js_div_def js_lt_def js_gt_def js_le_def
  rnd_def signed_zero_def signed_inf_def is_zero_def truthy_def

text \<open>
  Rounding keeps the sign of a multiple of \<open>2 ^ -1074\<close>: such a number, if it is not
  zero, does not round to zero.
\<close>

lemma round_even_int: "round_even (of_int n) = n"
  by (simp add: round_even_def)

lemma round_even_ge: "1 \<le> y \<Longrightarrow> 1 \<le> round_even y"
proof -
  assume "1 \<le> y"
  then have "1 \<le> \<lfloor>y\<rfloor>" by simp
  then show ?thesis
    by (auto simp: round_even_def Let_def)
qed

lemma round_even_le: "y \<le> - 1 \<Longrightarrow> round_even y \<le> - 1"
proof -
  assume y: "y \<le> - 1"
  show ?thesis
  proof (cases "y = - 1")
    case True
    then show ?thesis using round_even_int [of "- 1"] by simp
  next
    case False
    with y have "y < - 1" by simp
    then have "\<lfloor>y\<rfloor> < - 1"
      by (simp add: floor_less_iff)
    then show ?thesis
      by (auto simp: round_even_def Let_def)
  qed
qed

lemma floor_log2_le:
  assumes "x \<noteq> 0"
  shows "2 powi (floor_log2 x) \<le> \<bar>x\<bar>"
proof (cases "1 \<le> \<bar>x\<bar>")
  case True
  let ?n = "\<lfloor>\<bar>x\<bar>\<rfloor>"
  from True have n: "0 < ?n" by simp
  from bitlen_bounds [OF n] have "2 ^ nat (bitlen ?n - 1) \<le> ?n" by simp
  then have "(2::rat) ^ nat (bitlen ?n - 1) \<le> of_int ?n"
    by (metis of_int_le_iff of_int_numeral of_int_power)
  also have "\<dots> \<le> \<bar>x\<bar>" by simp
  finally have "(2::rat) ^ nat (bitlen ?n - 1) \<le> \<bar>x\<bar>" .
  moreover have "1 \<le> bitlen ?n"
    using n by (simp add: bitlen_alt_def)
  ultimately show ?thesis
    using True by (simp add: floor_log2_def power_int_def)
next
  case False
  let ?c = "\<lceil>1 / \<bar>x\<bar>\<rceil>"
  from False assms have x: "0 < \<bar>x\<bar>" "\<bar>x\<bar> < 1" by simp_all
  then have "1 < 1 / \<bar>x\<bar>" by simp
  then have c: "1 < ?c" by (simp add: less_ceiling_iff)
  then have pos: "0 < ?c - 1" by simp
  from bitlen_bounds [OF pos] have "?c - 1 < 2 ^ nat (bitlen (?c - 1))" by simp
  then have "?c \<le> 2 ^ nat (bitlen (?c - 1))" by simp
  then have le: "(of_int ?c :: rat) \<le> 2 ^ nat (bitlen (?c - 1))"
    by (metis of_int_le_iff of_int_numeral of_int_power)
  have "1 / \<bar>x\<bar> \<le> of_int ?c" by (rule le_of_int_ceiling)
  also note le
  finally have "1 / \<bar>x\<bar> \<le> 2 ^ nat (bitlen (?c - 1))" .
  then have "1 / 2 ^ nat (bitlen (?c - 1)) \<le> \<bar>x\<bar>"
    using x(1) by (simp add: field_simps)
  moreover have "(2::rat) powi (- bitlen (?c - 1)) = 1 / 2 ^ nat (bitlen (?c - 1))"
    using bitlen_nonneg [of "?c - 1"]
    by (simp add: power_int_minus power_int_def field_simps)
  ultimately show ?thesis
    using False by (simp add: floor_log2_def)
qed

lemma to_double_grid: "to_double x = Fin r \<Longrightarrow> on_grid r"
proof -
  assume a: "to_double x = Fin r"
  show ?thesis
  proof (cases "x = 0")
    case True
    with a show ?thesis by (simp add: to_double_def on_grid_def)
  next
    case False
    define e where "e = max (- 1074) (floor_log2 x - 52)"
    define m where "m = round_even (x / 2 powi e)"
    from a False have r: "r = of_int m * 2 powi e"
      by (simp add: to_double_def Let_def e_def m_def split: if_splits)
    have "0 \<le> e + 1074" by (simp add: e_def)
    then obtain k where k: "e + 1074 = int k"
      using nonneg_int_cases by blast
    have "(2::rat) powi e * 2 ^ 1074 = 2 powi (e + 1074)"
      by (simp add: power_int_add)
    also have "\<dots> = 2 ^ k" by (simp add: k)
    finally have "r * 2 ^ 1074 = of_int (m * 2 ^ k)"
      by (simp add: r mult.assoc)
    then show ?thesis
      unfolding on_grid_def by (metis Ints_of_int)
  qed
qed

lemma scaled_magnitude:
  assumes "on_grid x" and "x \<noteq> 0"
  shows "1 \<le> \<bar>x\<bar> / 2 powi (max (- 1074) (floor_log2 x - 52))"
proof (cases "floor_log2 x - 52 \<le> - 1074")
  case True
  then have e: "max (- 1074) (floor_log2 x - 52) = - 1074" by simp
  from assms(1) obtain n where n: "x * 2 ^ 1074 = of_int n"
    unfolding on_grid_def by (auto elim: Ints_cases)
  with assms(2) have "n \<noteq> 0" by auto
  then have "1 \<le> \<bar>n\<bar>" by simp
  then have "1 \<le> \<bar>of_int n :: rat\<bar>"
    by (metis of_int_1_le_iff of_int_abs)
  with n have "1 \<le> \<bar>x * 2 ^ 1074\<bar>" by simp
  then have "1 \<le> \<bar>x\<bar> * 2 ^ 1074"
    by (simp add: abs_mult)
  then show ?thesis
    by (simp add: e power_int_minus field_simps)
next
  case False
  then have e: "max (- 1074) (floor_log2 x - 52) = floor_log2 x - 52" by simp
  from floor_log2_le [OF assms(2)] have "2 powi floor_log2 x \<le> \<bar>x\<bar>" .
  moreover have "(2::rat) powi (floor_log2 x - 52) \<le> 2 powi floor_log2 x"
    by (simp add: power_int_increasing)
  ultimately have "2 powi (floor_log2 x - 52) \<le> \<bar>x\<bar>" by simp
  then show ?thesis by (simp add: e field_simps)
qed

lemma to_double_pos:
  assumes "on_grid x" and "0 < x"
  shows "to_double x = PosInf \<or> (\<exists>r. to_double x = Fin r \<and> 0 < r)"
proof -
  define e where "e = max (- 1074) (floor_log2 x - 52)"
  define m where "m = round_even (x / 2 powi e)"
  have "1 \<le> x / 2 powi e"
    using scaled_magnitude [OF assms(1)] assms(2) by (simp add: e_def)
  then have "1 \<le> m" unfolding m_def by (rule round_even_ge)
  then have "0 < (of_int m :: rat) * 2 powi e"
    by (simp add: zero_less_mult_iff)
  then show ?thesis
    using assms(2)
    by (auto simp: to_double_def Let_def e_def [symmetric] m_def [symmetric])
qed

lemma to_double_neg:
  assumes "on_grid x" and "x < 0"
  shows "to_double x = NegInf \<or> (\<exists>r. to_double x = Fin r \<and> r < 0)"
proof -
  define e where "e = max (- 1074) (floor_log2 x - 52)"
  define m where "m = round_even (x / 2 powi e)"
  have "1 \<le> - x / 2 powi e"
    using scaled_magnitude [OF assms(1)] assms(2) by (simp add: e_def)
  then have "x / 2 powi e \<le> - 1" by simp
  then have "m \<le> - 1" unfolding m_def by (rule round_even_le)
  then have neg: "(of_int m :: rat) * 2 powi e < 0"
    by (simp add: mult_less_0_iff)
  then have "\<not> 2 ^ 1024 \<le> (of_int m :: rat) * 2 powi e"
    by (smt (verit) zero_le_numeral zero_le_power order_trans not_less)
  with neg show ?thesis
    using assms(2)
    by (auto simp: to_double_def Let_def e_def [symmetric] m_def [symmetric])
qed

lemma finite_double_cases:
  assumes "finite_double x"
  obtains (fin) r where "x = Fin r" and "on_grid r" | (negzero) "x = NegZero"
  using assms to_double_grid
  by (cases x) (auto simp: finite_double_def)

lemma finite_double_val: "finite_double x \<Longrightarrow> on_grid (val x)"
  by (erule finite_double_cases) (simp_all add: on_grid_def)

lemma finite_double_isFinite: "finite_double x \<Longrightarrow> isFinite x \<and> x \<noteq> NaN"
  by (erule finite_double_cases) simp_all

lemma on_grid_diff: "on_grid a \<Longrightarrow> on_grid b \<Longrightarrow> on_grid (a - b)"
  unfolding on_grid_def by (simp add: left_diff_distrib)

lemma js_neg_val: "isFinite y \<Longrightarrow> isFinite (js_neg y) \<and> val (js_neg y) = - val y \<and> js_neg y \<noteq> NaN"
  by (cases y) simp_all

text \<open>
  The difference of two finite doubles is negative, zero or positive as the exact
  difference is, and it is not NaN.
\<close>

lemma js_sub_sign:
  assumes "finite_double x" and "finite_double y"
  shows "js_sub x y \<noteq> NaN"
    and "js_lt (js_sub x y) (Fin 0) \<longleftrightarrow> val x < val y"
    and "js_gt (js_sub x y) (Fin 0) \<longleftrightarrow> val y < val x"
proof -
  from assms have fx: "isFinite x" "x \<noteq> NaN" and fy: "isFinite y" "y \<noteq> NaN"
    by (simp_all add: finite_double_isFinite)
  from js_neg_val [OF fy(1)]
  have ny: "isFinite (js_neg y)" "val (js_neg y) = - val y" "js_neg y \<noteq> NaN"
    by simp_all
  let ?s = "val x - val y"
  have g: "on_grid ?s"
    using assms by (intro on_grid_diff finite_double_val)
  have *: "js_sub x y \<noteq> NaN
     \<and> (js_lt (js_sub x y) (Fin 0) \<longleftrightarrow> val x < val y)
     \<and> (js_gt (js_sub x y) (Fin 0) \<longleftrightarrow> val y < val x)"
  proof (cases "?s = 0")
    case True
    then show ?thesis
      using fx ny
      by (auto simp: js_sub_def js_add_def signed_zero_def js_lt_def js_gt_def)
  next
    case False
    show ?thesis
    proof (cases "0 < ?s")
      case True
      from to_double_pos [OF g True] True False fx ny show ?thesis
        by (auto simp: js_sub_def js_add_def rnd_def js_lt_def js_gt_def)
    next
      case neg: False
      with False have n: "?s < 0" by simp
      from to_double_neg [OF g n] n False fx ny show ?thesis
        by (auto simp: js_sub_def js_add_def rnd_def js_lt_def js_gt_def)
    qed
  qed
  from * show "js_sub x y \<noteq> NaN" by blast
  from * show "js_lt (js_sub x y) (Fin 0) \<longleftrightarrow> val x < val y" by blast
  from * show "js_gt (js_sub x y) (Fin 0) \<longleftrightarrow> val y < val x" by blast
qed

lemma is_zero_iff: "x \<noteq> NaN \<Longrightarrow> is_zero x \<longleftrightarrow> \<not> js_lt x (Fin 0) \<and> \<not> js_gt x (Fin 0)"
  by (cases x) (auto simp: is_zero_def js_lt_def js_gt_def)

lemma js_le_val: "isFinite x \<Longrightarrow> isFinite y \<Longrightarrow> js_le x y \<longleftrightarrow> val x \<le> val y"
  by (cases x; cases y) (auto simp: js_le_def js_lt_def)

text \<open>
  The binary exponent is the one that brackets the number, and rounding a double leaves it
  as it is: the finite results of the operations are doubles.
\<close>

lemma floor_log2_gt:
  assumes "x \<noteq> 0"
  shows "\<bar>x\<bar> < 2 powi (floor_log2 x + 1)"
proof (cases "1 \<le> \<bar>x\<bar>")
  case True
  let ?n = "\<lfloor>\<bar>x\<bar>\<rfloor>"
  from True have n: "0 < ?n" by simp
  from bitlen_bounds [OF n] have "?n < 2 ^ nat (bitlen ?n)" by simp
  then have "?n + 1 \<le> 2 ^ nat (bitlen ?n)" by simp
  then have "(of_int (?n + 1) :: rat) \<le> 2 ^ nat (bitlen ?n)"
    by (metis of_int_le_iff of_int_numeral of_int_power)
  moreover have "\<bar>x\<bar> < of_int (?n + 1)"
    by (metis floor_correct of_int_add of_int_1)
  ultimately have "\<bar>x\<bar> < 2 ^ nat (bitlen ?n)" by simp
  moreover have "0 \<le> bitlen ?n" by (rule bitlen_nonneg)
  ultimately show ?thesis
    using True by (simp add: floor_log2_def power_int_def)
next
  case False
  let ?c = "\<lceil>1 / \<bar>x\<bar>\<rceil>"
  from False assms have x: "0 < \<bar>x\<bar>" "\<bar>x\<bar> < 1" by simp_all
  then have "1 < 1 / \<bar>x\<bar>" by simp
  then have c: "1 < ?c" by (simp add: less_ceiling_iff)
  then have pos: "0 < ?c - 1" by simp
  let ?b = "bitlen (?c - 1)"
  from pos have b1: "1 \<le> ?b" by (simp add: bitlen_alt_def)
  from bitlen_bounds [OF pos] have "2 ^ nat (?b - 1) \<le> ?c - 1" by simp
  then have "(2::rat) ^ nat (?b - 1) \<le> of_int (?c - 1)"
    by (metis of_int_le_iff of_int_numeral of_int_power)
  also have "(of_int (?c - 1) :: rat) < 1 / \<bar>x\<bar>"
    by (metis ceiling_correct of_int_diff of_int_1)
  finally have "(2::rat) ^ nat (?b - 1) < 1 / \<bar>x\<bar>" .
  then have "\<bar>x\<bar> < 1 / 2 ^ nat (?b - 1)"
    using x(1) by (simp add: field_simps)
  moreover have "(2::rat) powi (- ?b + 1) = 1 / 2 ^ nat (?b - 1)"
  proof -
    have "- ?b + 1 = - int (nat (?b - 1))" using b1 by simp
    then show ?thesis
      by (simp only: power_int_minus power_int_of_nat) (simp add: field_simps)
  qed
  ultimately show ?thesis
    using False by (simp add: floor_log2_def)
qed

lemma two_powi_less_imp: "(2::rat) powi a < 2 powi b \<Longrightarrow> a < b"
  by (metis linorder_not_less one_le_numeral power_int_increasing)

lemma floor_log2_unique:
  assumes "x \<noteq> 0" and "2 powi n \<le> \<bar>x\<bar>" and "\<bar>x\<bar> < 2 powi (n + 1)"
  shows "floor_log2 x = n"
proof -
  from floor_log2_le [OF assms(1)] assms(3) have "(2::rat) powi floor_log2 x < 2 powi (n + 1)"
    by simp
  then have "floor_log2 x < n + 1" by (rule two_powi_less_imp)
  moreover from floor_log2_gt [OF assms(1)] assms(2)
  have "(2::rat) powi n < 2 powi (floor_log2 x + 1)" by simp
  then have "n < floor_log2 x + 1" by (rule two_powi_less_imp)
  ultimately show ?thesis by simp
qed

lemma round_even_bounds:
  "of_int k \<le> y \<Longrightarrow> k \<le> round_even y" "y \<le> of_int k \<Longrightarrow> round_even y \<le> k"
proof -
  assume "of_int k \<le> y"
  then have "k \<le> \<lfloor>y\<rfloor>" by (simp add: le_floor_iff)
  then show "k \<le> round_even y"
    by (auto simp: round_even_def Let_def)
next
  assume a: "y \<le> of_int k"
  show "round_even y \<le> k"
  proof (cases "y = of_int k")
    case True
    then show ?thesis by (simp add: round_even_int)
  next
    case False
    with a have "y < of_int k" by simp
    then have "\<lfloor>y\<rfloor> < k" by (simp add: floor_less_iff)
    then show ?thesis by (auto simp: round_even_def Let_def)
  qed
qed

text \<open>Rounding a double gives the double: the results of the operations are doubles.\<close>

lemma to_double_idem:
  assumes "to_double x = Fin r"
  shows "to_double r = Fin r"
proof (cases "r = 0")
  case True
  then show ?thesis by (simp add: to_double_def)
next
  case r0: False
  with assms have x0: "x \<noteq> 0"
    by (auto simp: to_double_def)
  define e where "e = max (- 1074) (floor_log2 x - 52)"
  define m where "m = round_even (x / 2 powi e)"
  from assms x0 have r: "r = of_int m * 2 powi e"
    and range: "\<not> 2 ^ 1024 \<le> r" "\<not> r \<le> - (2 ^ 1024)"
    by (simp_all add: to_double_def Let_def e_def m_def split: if_splits)
  have e_low: "- 1074 \<le> e" and e_fl: "floor_log2 x - 52 \<le> e"
    by (simp_all add: e_def)
  have p: "(0::rat) < 2 powi e" by simp
  have "\<bar>x\<bar> < 2 powi (floor_log2 x + 1)"
    by (rule floor_log2_gt [OF x0])
  also have "(2::rat) powi (floor_log2 x + 1) \<le> 2 powi (e + 53)"
    using e_fl by (intro power_int_increasing) simp_all
  also have "(2::rat) powi (e + 53) = 2 powi e * 2 ^ 53"
    by (simp add: power_int_add)
  finally have "\<bar>x\<bar> / 2 powi e < 2 ^ 53"
    using p by (simp add: field_simps)
  moreover define y where "y = x / 2 powi e"
  ultimately have "\<bar>y\<bar> < of_int (2 ^ 53)"
    by (simp add: abs_divide)
  then have "y \<le> of_int (2 ^ 53)" "of_int (- (2 ^ 53)) \<le> y"
    by (simp_all only: abs_less_iff of_int_minus) linarith+
  then have mb: "m \<le> 2 ^ 53" "- (2 ^ 53) \<le> m"
    unfolding m_def y_def [symmetric] by (simp_all only: round_even_bounds)
  from r r0 have m0: "m \<noteq> 0" by auto
  have ar: "\<bar>r\<bar> = of_int \<bar>m\<bar> * 2 powi e"
    by (simp add: r abs_mult)
  define e' where "e' = max (- 1074) (floor_log2 r - 52)"
  have "\<exists>k. r = of_int k * 2 powi e'"
  proof (cases "\<bar>m\<bar> = 2 ^ 53")
    case True
    then have "\<bar>r\<bar> = 2 powi (e + 53)"
      by (simp add: ar power_int_add)
    then have "floor_log2 r = e + 53"
      using r0 by (intro floor_log2_unique) (simp_all add: power_int_add)
    then have e': "e' = e + 1"
      using e_low by (simp add: e'_def)
    have "m = 2 ^ 53 \<or> m = - (2 ^ 53)"
      using True by (auto simp: abs_if split: if_splits)
    then have "r = of_int (m div 2) * 2 powi e'"
      by (auto simp: r e' power_int_add)
    then show ?thesis by blast
  next
    case False
    with mb have "\<bar>m\<bar> < 2 ^ 53" by simp
    then have "(of_int \<bar>m\<bar> :: rat) < 2 ^ 53"
      by (metis of_int_less_iff of_int_numeral of_int_power)
    then have "\<bar>r\<bar> < 2 powi (e + 53)"
      using p by (simp add: ar power_int_add mult.commute)
    with floor_log2_le [OF r0] have "(2::rat) powi floor_log2 r < 2 powi (e + 53)"
      by simp
    then have "floor_log2 r < e + 53" by (rule two_powi_less_imp)
    then have le: "e' \<le> e"
      using e_low by (simp add: e'_def)
    then obtain d where d: "e = e' + int d"
      by (metis le_iff_add nonneg_int_cases zle_iff_zadd)
    have "r = of_int (m * 2 ^ d) * 2 powi e'"
      by (simp add: r d power_int_add mult.assoc mult.commute)
    then show ?thesis by blast
  qed
  then obtain k where k: "r = of_int k * 2 powi e'" by blast
  then have "r / 2 powi e' = of_int k" by simp
  then have "of_int (round_even (r / 2 powi e')) * 2 powi e' = r"
    by (simp add: round_even_int k)
  with r0 range show ?thesis
    by (simp add: to_double_def Let_def e'_def [symmetric])
qed

lemma to_double_cases:
  "to_double x = PosInf \<or> to_double x = NegInf \<or> (\<exists>r. to_double x = Fin r)"
  by (simp add: to_double_def Let_def)

lemma finite_double_zero: "finite_double (Fin 0)" "finite_double NegZero"
  by (simp_all add: finite_double_def to_double_def)

lemma rnd_double: "isFinite (rnd s x) \<Longrightarrow> finite_double (rnd s x)"
  using to_double_cases [of x]
  by (auto simp: rnd_def signed_zero_def finite_double_zero)
     (simp add: finite_double_def to_double_idem)

lemma js_add_double: "isFinite (js_add x y) \<Longrightarrow> finite_double (js_add x y)"
  by (auto simp: js_add_def signed_zero_def finite_double_zero rnd_double split: if_splits)

lemma balanced_score_double: "isFinite (balanced_score q) \<Longrightarrow> finite_double (balanced_score q)"
  by (simp add: balanced_score_def js_add_double)

lemma js_arith_double:
  "isFinite (js_sub x y) \<Longrightarrow> finite_double (js_sub x y)"
  "isFinite (js_mul x y) \<Longrightarrow> finite_double (js_mul x y)"
  "isFinite (js_div x y) \<Longrightarrow> finite_double (js_div x y)"
  by (auto simp: js_sub_def js_add_double js_mul_def js_div_def signed_zero_def signed_inf_def
      finite_double_zero rnd_double split: if_splits)

section \<open>Ranking: proofs\<close>

text \<open>
  On quotes whose keys are finite doubles the comparator has the sign of the difference
  of the keys, so it is a consistent comparison function and \<open>rankQuotes\<close> is the
  stable sort by the key.
\<close>

lemma compareQuotes_sign:
  assumes "finite_double (rank_key p a)" and "finite_double (rank_key p b)"
  shows "compareQuotes p a b \<noteq> NaN"
    and "js_lt (compareQuotes p a b) (Fin 0) \<longleftrightarrow> sort_val p a < sort_val p b"
    and "js_gt (compareQuotes p a b) (Fin 0) \<longleftrightarrow> sort_val p b < sort_val p a"
  using assms js_sub_sign [of "rank_key p a" "rank_key p b"]
    js_sub_sign [of "rank_key p b" "rank_key p a"]
  by (auto simp: compareQuotes_def rank_key_def sort_val_def Let_def split: if_splits)

lemma compareQuotes_zero:
  assumes "finite_double (rank_key p a)" and "finite_double (rank_key p b)"
  shows "is_zero (compareQuotes p a b) \<longleftrightarrow> sort_val p a = sort_val p b"
  using compareQuotes_sign [OF assms] by (auto simp: is_zero_iff)

lemma finite_keys_consistent:
  assumes "\<forall>q \<in> set qs. finite_double (rank_key p q)"
  shows "consistent (compareQuotes p) qs"
  unfolding consistent_def
proof (intro ballI conjI impI)
  fix a b c
  assume m: "a \<in> set qs" "b \<in> set qs" "c \<in> set qs"
  with assms have f: "finite_double (rank_key p a)" "finite_double (rank_key p b)"
    "finite_double (rank_key p c)"
    by blast+
  show "compareQuotes p a b \<noteq> NaN"
    using f by (simp add: compareQuotes_sign)
  show "is_zero (compareQuotes p a a)"
    using f by (simp add: compareQuotes_zero)
  show "is_zero (compareQuotes p b a)" if "is_zero (compareQuotes p a b)"
    using that f by (simp add: compareQuotes_zero)
  show "is_zero (compareQuotes p a c)"
    if "is_zero (compareQuotes p a b) \<and> is_zero (compareQuotes p b c)"
    using that f by (simp add: compareQuotes_zero)
  show "js_lt (compareQuotes p a c) (Fin 0)"
    if "js_lt (compareQuotes p a b) (Fin 0) \<and> js_lt (compareQuotes p b c) (Fin 0)"
    using that f by (simp add: compareQuotes_sign)
  show "js_gt (compareQuotes p a c) (Fin 0)"
    if "js_gt (compareQuotes p a b) (Fin 0) \<and> js_gt (compareQuotes p b c) (Fin 0)"
    using that f by (simp add: compareQuotes_sign)
qed

lemma place_by_insort_key:
  "\<forall>y \<in> set ys. js_gt (cmp x y) (Fin 0) \<longleftrightarrow> k y < k x
    \<Longrightarrow> place_by cmp x ys = insort_key k x ys"
  by (induction ys) (auto simp: not_less)

lemma stable_sort_sort_key:
  "\<forall>x \<in> set xs. \<forall>y \<in> set xs. js_gt (cmp x y) (Fin 0) \<longleftrightarrow> k y < (k x :: rat)
    \<Longrightarrow> stable_sort cmp xs = sort_key k xs"
proof (induction xs)
  case Nil
  then show ?case by (simp add: stable_sort_def)
next
  case (Cons x xs)
  then have "stable_sort cmp xs = sort_key k xs" by simp
  moreover have "\<forall>y \<in> set (sort_key k xs). js_gt (cmp x y) (Fin 0) \<longleftrightarrow> k y < k x"
    using Cons.prems by simp
  ultimately show ?case
    using place_by_insort_key [of "sort_key k xs" cmp x k]
    by (simp add: stable_sort_def)
qed

lemma rankQuotes_finite:
  assumes "\<forall>q \<in> set qs. finite_double (rank_key p q)"
  shows "rankQuotes pf qs p = sort_key (sort_val p) qs"
proof -
  have "stable_sort (compareQuotes p) qs = sort_key (sort_val p) qs"
    using assms by (intro stable_sort_sort_key) (simp add: compareQuotes_sign)
  then show ?thesis
    using finite_keys_consistent [OF assms] by (simp add: rankQuotes_def array_sort_def)
qed

text \<open>Whatever the comparator, the result holds the quotes of the input.\<close>

lemma mset_place_by: "mset (place_by cmp x ys) = add_mset x (mset ys)"
  by (induction ys) simp_all

lemma mset_stable_sort: "mset (stable_sort cmp xs) = mset xs"
  by (induction xs) (simp_all add: stable_sort_def mset_place_by)

lemma mset_reorder: "mset (reorder r xs) = mset xs"
proof -
  have "map snd (zip (map r [0..<length xs]) xs) = xs"
    by (simp add: map_snd_zip)
  then have "image_mset snd (mset (zip (map r [0..<length xs]) xs)) = mset xs"
    by (metis mset_map)
  then show ?thesis by (simp add: reorder_def)
qed

lemma rankQuotes_mset: "mset (rankQuotes pf qs p) = mset qs"
  by (simp add: rankQuotes_def array_sort_def mset_stable_sort mset_reorder)

lemma rankQuotes_set: "set (rankQuotes pf qs p) = set qs"
  using rankQuotes_mset [of pf qs p] by (metis set_mset_mset)

lemma rankQuotes_head: "rankQuotes pf qs p = q # rest \<Longrightarrow> q \<in> set qs"
  using rankQuotes_set [of pf qs p] by (metis list.set_intros(1))

lemma sorted_by_val:
  assumes "\<forall>q \<in> set qs. isFinite (f q)" and "sorted (map (\<lambda>q. val (f q)) qs)"
  shows "sorted_wrt js_le (map f qs)"
proof -
  from assms(2) have "sorted_wrt (\<lambda>a b. val (f a) \<le> val (f b)) qs"
    by (simp add: sorted_map)
  then have "sorted_wrt (\<lambda>a b. js_le (f a) (f b)) qs"
    using assms(1) by (elim sorted_wrt_mono_rel [rotated]) (simp add: js_le_val)
  then show ?thesis by (simp add: sorted_wrt_map)
qed

lemma sorted_by_neg_val:
  assumes "\<forall>q \<in> set qs. isFinite (f q)" and "sorted (map (\<lambda>q. - val (f q)) qs)"
  shows "sorted_wrt (\<lambda>a b. js_le b a) (map f qs)"
proof -
  from assms(2) have "sorted_wrt (\<lambda>a b. val (f b) \<le> val (f a)) qs"
    by (simp add: sorted_map)
  then have "sorted_wrt (\<lambda>a b. js_le (f b) (f a)) qs"
    using assms(1) by (elim sorted_wrt_mono_rel [rotated]) (simp add: js_le_val)
  then show ?thesis by (simp add: sorted_wrt_map)
qed

lemma sort_val_simps:
  "sort_val ''cheapest'' = (\<lambda>q. val (feeUSD q))"
  "sort_val ''fastest'' = (\<lambda>q. val (estimatedMinutes q))"
  "sort_val ''safest'' = (\<lambda>q. - val (successRate q))"
  "sort_val ''balanced'' = (\<lambda>q. val (balanced_score q))"
  by (rule ext, simp add: sort_val_def rank_key_def)+

lemma rankQuotes_sorted:
  assumes "\<forall>q \<in> set qs. finite_double (rank_key p q)"
  shows "sorted (map (sort_val p) (rankQuotes pf qs p))"
    and "\<forall>q \<in> set (rankQuotes pf qs p). isFinite (rank_key p q)"
  using assms by (simp_all add: rankQuotes_finite finite_double_isFinite)

section \<open>Ranking: the claims\<close>

text \<open>The doubles of some literals, and the scores and keys of the sample quotes.\<close>

lemma lit_values:
  "lit (2 / 5) = Fin (3602879701896397 / 9007199254740992)"
  "lit (1 / 5) = Fin (3602879701896397 / 18014398509481984)"
  "lit (24 / 25) = Fin (1080863910568919 / 1125899906842624)"
  "lit (97 / 100) = Fin (4368491638549381 / 4503599627370496)"
  "lit (19 / 20) = Fin (4278419646001971 / 4503599627370496)"
  "lit (1 / 4) = Fin (1 / 4)"
  "lit (1 / 20) = Fin (3602879701896397 / 72057594037927936)"
  "lit (4 / 5) = Fin (3602879701896397 / 4503599627370496)"
  by (simp_all add: lit_def eval_double)

lemma sample_scores:
  "balanced_score (axelar_sample (Fin (79 / 4))) = Fin (6023564501608039 / 562949953421312)"
  "balanced_score (demo_quote (Fin (41 / 4))) = Fin (752945562701005 / 70368744177664)"
  by (simp_all add: balanced_score_def axelar_sample_def demo_quote_def lit_values eval_js eval_double)

lemma sample_finite:
  "finite_double (Fin 1)" "finite_double (Fin 5)" "finite_double (Fin 15)"
  "finite_double (Fin (79 / 4))" "finite_double (Fin (41 / 4))"
  "finite_double (Fin (1080863910568919 / 1125899906842624))"
  "finite_double (Fin (4368491638549381 / 4503599627370496))"
  "finite_double (Fin (6023564501608039 / 562949953421312))"
  "finite_double (Fin (752945562701005 / 70368744177664))"
  by (simp_all add: finite_double_def eval_double)

lemma sample_keys:
  "feeUSD (demo_quote x) = x" "feeUSD (axelar_sample x) = x"
  "estimatedMinutes (demo_quote x) = Fin 15" "estimatedMinutes (axelar_sample x) = Fin 5"
  "successRate (demo_quote x) = Fin (4368491638549381 / 4503599627370496)"
  "successRate (axelar_sample x) = Fin (1080863910568919 / 1125899906842624)"
  "bridge (demo_quote x) = ''Wormhole''" "bridge (axelar_sample x) = ''Axelar''"
  by (simp_all add: demo_quote_def axelar_sample_def lit_values)

lemma nan_fee_inconsistent:
  "\<not> consistent (compareQuotes ''cheapest'') [demo_quote NaN, axelar_sample (Fin 1)]"
  by (auto simp: consistent_def compareQuotes_def sample_keys js_sub_def js_add_def)

lemma reorder_as_is: "reorder (\<lambda>i. i) [x, y] = [x, y]"
  by (simp add: reorder_def)

text \<open>
  Claim C6 as stated fails. With a fee that is NaN, which \<open>parseFloat\<close> yields for a
  provider field that does not start with a number, neither of two quotes has a fee
  \<open><=\<close> the other, so no order of them is non-decreasing in \<open>feeUSD\<close>. And under
  "balanced" the order follows the rounded score: of an Axelar quote with fee 19.75 and a
  Wormhole quote with fee 10.25 the first comes out in front, although in exact arithmetic
  its weighted score is the larger one.
\<close>

theorem rankQuotes_order_counterexample:
  "map bridge (rankQuotes demo_platform [demo_quote NaN, axelar_sample (Fin 1)] ''cheapest'')
     = [''Wormhole'', ''Axelar'']
   \<and> \<not> js_le (feeUSD (demo_quote NaN)) (feeUSD (axelar_sample (Fin 1)))
   \<and> \<not> js_le (feeUSD (axelar_sample (Fin 1))) (feeUSD (demo_quote NaN))
   \<and> map bridge (rankQuotes demo_platform
        [axelar_sample (Fin (79 / 4)), demo_quote (Fin (41 / 4))] ''balanced'')
     = [''Axelar'', ''Wormhole'']
   \<and> spec_balanced_score (demo_quote (Fin (41 / 4)))
       < spec_balanced_score (axelar_sample (Fin (79 / 4)))"
proof -
  have 1: "rankQuotes demo_platform [demo_quote NaN, axelar_sample (Fin 1)] ''cheapest''
      = [demo_quote NaN, axelar_sample (Fin 1)]"
    by (simp add: rankQuotes_def array_sort_def nan_fee_inconsistent demo_platform_def
        reorder_as_is)
  have 2: "\<not> js_le (feeUSD (demo_quote NaN)) (feeUSD (axelar_sample (Fin 1)))"
    "\<not> js_le (feeUSD (axelar_sample (Fin 1))) (feeUSD (demo_quote NaN))"
    by (simp_all add: sample_keys js_le_def)
  have "\<forall>q \<in> set [axelar_sample (Fin (79 / 4)), demo_quote (Fin (41 / 4))].
          finite_double (rank_key ''balanced'' q)"
    by (simp add: rank_key_def sample_scores sample_finite)
  then have 3: "rankQuotes demo_platform [axelar_sample (Fin (79 / 4)), demo_quote (Fin (41 / 4))]
        ''balanced''
      = [axelar_sample (Fin (79 / 4)), demo_quote (Fin (41 / 4))]"
    by (simp add: rankQuotes_finite sort_val_simps sample_scores)
  have 4: "spec_balanced_score (demo_quote (Fin (41 / 4)))
       < spec_balanced_score (axelar_sample (Fin (79 / 4)))"
    by (simp add: spec_balanced_score_def sample_keys)
  from 1 2 3 4 show ?thesis
    by (simp add: sample_keys)
qed

text \<open>
  Claim C6, amended. For every list of quotes whose keys under the policy are finite
  numbers (neither NaN nor an infinity), \<open>rankQuotes\<close> returns under "cheapest" a list
  non-decreasing in \<open>feeUSD\<close>, under "fastest" a list non-decreasing in
  \<open>estimatedMinutes\<close>, under "safest" a list non-increasing in \<open>successRate\<close>, and
  under "balanced" a list non-decreasing in the weighted score as the code computes it:
  \<open>feeUSD * 0.4 + estimatedMinutes * 0.4 + (1 - successRate) * 100 * 0.2\<close> in double
  arithmetic, rounded after every operation. The key of "balanced" is that computed
  score, and it is asked to be finite. The order is that of the comparison \<open><=\<close> of
  JavaScript numbers.
\<close>

theorem rankQuotes_ordered_finite:
  "((\<forall>q \<in> set qs. finite_double (feeUSD q))
      \<longrightarrow> sorted_wrt js_le (map feeUSD (rankQuotes pf qs ''cheapest'')))
   \<and> ((\<forall>q \<in> set qs. finite_double (estimatedMinutes q))
      \<longrightarrow> sorted_wrt js_le (map estimatedMinutes (rankQuotes pf qs ''fastest'')))
   \<and> ((\<forall>q \<in> set qs. finite_double (successRate q))
      \<longrightarrow> sorted_wrt (\<lambda>a b. js_le b a) (map successRate (rankQuotes pf qs ''safest'')))
   \<and> ((\<forall>q \<in> set qs. isFinite (balanced_score q))
      \<longrightarrow> sorted_wrt js_le (map balanced_score (rankQuotes pf qs ''balanced'')))"
proof (intro conjI impI)
  assume "\<forall>q \<in> set qs. finite_double (feeUSD q)"
  then have "\<forall>q \<in> set qs. finite_double (rank_key ''cheapest'' q)"
    by (simp add: rank_key_def)
  from rankQuotes_sorted [OF this, of pf]
  show "sorted_wrt js_le (map feeUSD (rankQuotes pf qs ''cheapest''))"
    by (intro sorted_by_val) (simp_all add: rank_key_def sort_val_simps)
next
  assume "\<forall>q \<in> set qs. finite_double (estimatedMinutes q)"
  then have "\<forall>q \<in> set qs. finite_double (rank_key ''fastest'' q)"
    by (simp add: rank_key_def)
  from rankQuotes_sorted [OF this, of pf]
  show "sorted_wrt js_le (map estimatedMinutes (rankQuotes pf qs ''fastest''))"
    by (intro sorted_by_val) (simp_all add: rank_key_def sort_val_simps)
next
  assume "\<forall>q \<in> set qs. finite_double (successRate q)"
  then have "\<forall>q \<in> set qs. finite_double (rank_key ''safest'' q)"
    by (simp add: rank_key_def)
  from rankQuotes_sorted [OF this, of pf]
  show "sorted_wrt (\<lambda>a b. js_le b a) (map successRate (rankQuotes pf qs ''safest''))"
    by (intro sorted_by_neg_val) (simp_all add: rank_key_def sort_val_simps)
next
  assume "\<forall>q \<in> set qs. isFinite (balanced_score q)"
  then have "\<forall>q \<in> set qs. finite_double (rank_key ''balanced'' q)"
    by (simp add: rank_key_def balanced_score_double)
  from rankQuotes_sorted [OF this, of pf]
  show "sorted_wrt js_le (map balanced_score (rankQuotes pf qs ''balanced''))"
    by (intro sorted_by_val) (simp_all add: rank_key_def sort_val_simps)
qed

theorem rankQuotes_ordered_finite_witness:
  "finite_double (feeUSD (axelar_sample (Fin (79 / 4))))
   \<and> finite_double (feeUSD (demo_quote (Fin (41 / 4))))
   \<and> sorted_wrt js_le (map feeUSD (rankQuotes demo_platform
        [axelar_sample (Fin (79 / 4)), demo_quote (Fin (41 / 4))] ''cheapest''))
   \<and> finite_double (estimatedMinutes (axelar_sample (Fin (79 / 4))))
   \<and> finite_double (estimatedMinutes (demo_quote (Fin (41 / 4))))
   \<and> sorted_wrt js_le (map estimatedMinutes (rankQuotes demo_platform
        [axelar_sample (Fin (79 / 4)), demo_quote (Fin (41 / 4))] ''fastest''))
   \<and> finite_double (successRate (axelar_sample (Fin (79 / 4))))
   \<and> finite_double (successRate (demo_quote (Fin (41 / 4))))
   \<and> sorted_wrt (\<lambda>a b. js_le b a) (map successRate (rankQuotes demo_platform
        [axelar_sample (Fin (79 / 4)), demo_quote (Fin (41 / 4))] ''safest''))
   \<and> isFinite (balanced_score (axelar_sample (Fin (79 / 4))))
   \<and> isFinite (balanced_score (demo_quote (Fin (41 / 4))))
   \<and> sorted_wrt js_le (map balanced_score (rankQuotes demo_platform
        [axelar_sample (Fin (79 / 4)), demo_quote (Fin (41 / 4))] ''balanced''))"
proof -
  let ?qs = "[axelar_sample (Fin (79 / 4)), demo_quote (Fin (41 / 4))]"
  have f: "finite_double (feeUSD (axelar_sample (Fin (79 / 4))))"
    "finite_double (feeUSD (demo_quote (Fin (41 / 4))))"
    and m: "finite_double (estimatedMinutes (axelar_sample (Fin (79 / 4))))"
    "finite_double (estimatedMinutes (demo_quote (Fin (41 / 4))))"
    and r: "finite_double (successRate (axelar_sample (Fin (79 / 4))))"
    "finite_double (successRate (demo_quote (Fin (41 / 4))))"
    and b: "isFinite (balanced_score (axelar_sample (Fin (79 / 4))))"
    "isFinite (balanced_score (demo_quote (Fin (41 / 4))))"
    by (simp_all add: sample_keys sample_scores sample_finite)
  note th = rankQuotes_ordered_finite [of ?qs demo_platform]
  have 1: "sorted_wrt js_le (map feeUSD (rankQuotes demo_platform ?qs ''cheapest''))"
    using th [THEN conjunct1] f by simp
  have 2: "sorted_wrt js_le (map estimatedMinutes (rankQuotes demo_platform ?qs ''fastest''))"
    using th [THEN conjunct2, THEN conjunct1] m by simp
  have 3: "sorted_wrt (\<lambda>a b. js_le b a) (map successRate (rankQuotes demo_platform ?qs ''safest''))"
    using th [THEN conjunct2, THEN conjunct2, THEN conjunct1] r by simp
  have 4: "sorted_wrt js_le (map balanced_score (rankQuotes demo_platform ?qs ''balanced''))"
    using th [THEN conjunct2, THEN conjunct2, THEN conjunct2] b by simp
  from f m r b 1 2 3 4 show ?thesis by blast
qed

text \<open>
  Claim C7 as stated fails: two quotes with equal fees come out in their input order, so
  the output for the same two quotes depends on the order in which they arrive, and
  "Wormhole" stays in front of "Axelar".
\<close>

theorem rankQuotes_tie_counterexample:
  "map bridge (rankQuotes demo_platform [demo_quote (Fin 1), axelar_sample (Fin 1)] ''cheapest'')
     = [''Wormhole'', ''Axelar'']
   \<and> map bridge (rankQuotes demo_platform [axelar_sample (Fin 1), demo_quote (Fin 1)] ''cheapest'')
     = [''Axelar'', ''Wormhole'']"
proof -
  have "\<forall>q \<in> set [demo_quote (Fin 1), axelar_sample (Fin 1)].
          finite_double (rank_key ''cheapest'' q)"
    and "\<forall>q \<in> set [axelar_sample (Fin 1), demo_quote (Fin 1)].
          finite_double (rank_key ''cheapest'' q)"
    by (simp_all add: rank_key_def sample_keys sample_finite)
  then show ?thesis
    by (simp add: rankQuotes_finite sort_val_simps sample_keys)
qed

text \<open>
  Claim C7, amended. For every policy and every list of quotes whose keys under the policy
  are finite numbers, \<open>rankQuotes\<close> returns a permutation of its input in which the
  quotes that the comparator of the policy compares equal to a given quote of the list
  keep their relative input order: the sort is stable, there is no tie-break on the
  provider identifier, and the output is a function of the input sequence, not of the set
  of quotes. (A key that is NaN or infinite makes the comparator return NaN, for which the
  order is implementation-defined.)
\<close>

theorem rankQuotes_stable_finite:
  assumes "\<forall>q \<in> set qs. finite_double (rank_key p q)"
  shows "mset (rankQuotes pf qs p) = mset qs
    \<and> (\<forall>r \<in> set qs.
          filter (\<lambda>q. is_zero (compareQuotes p q r)) (rankQuotes pf qs p)
            = filter (\<lambda>q. is_zero (compareQuotes p q r)) qs)"
proof (intro conjI ballI)
  show "mset (rankQuotes pf qs p) = mset qs"
    by (rule rankQuotes_mset)
next
  fix r
  assume r: "r \<in> set qs"
  have z: "is_zero (compareQuotes p q r) \<longleftrightarrow> sort_val p q = sort_val p r" if "q \<in> set qs" for q
    using assms r that by (simp add: compareQuotes_zero)
  have "filter (\<lambda>q. is_zero (compareQuotes p q r)) (rankQuotes pf qs p)
          = filter (\<lambda>q. sort_val p q = sort_val p r) (rankQuotes pf qs p)"
    by (rule filter_cong) (simp_all add: z rankQuotes_set)
  also have "\<dots> = filter (\<lambda>q. sort_val p q = sort_val p r) qs"
    by (simp add: rankQuotes_finite [OF assms] sort_key_stable)
  also have "\<dots> = filter (\<lambda>q. is_zero (compareQuotes p q r)) qs"
    by (rule filter_cong) (simp_all add: z)
  finally show "filter (\<lambda>q. is_zero (compareQuotes p q r)) (rankQuotes pf qs p)
      = filter (\<lambda>q. is_zero (compareQuotes p q r)) qs" .
qed

theorem rankQuotes_stable_finite_witness:
  "finite_double (rank_key ''cheapest'' (demo_quote (Fin 5)))
   \<and> finite_double (rank_key ''cheapest'' (demo_quote (Fin 1)))
   \<and> finite_double (rank_key ''cheapest'' (axelar_sample (Fin 1)))
   \<and> mset (rankQuotes demo_platform
        [demo_quote (Fin 5), demo_quote (Fin 1), axelar_sample (Fin 1)] ''cheapest'')
       = mset [demo_quote (Fin 5), demo_quote (Fin 1), axelar_sample (Fin 1)]
   \<and> filter (\<lambda>q. is_zero (compareQuotes ''cheapest'' q (axelar_sample (Fin 1))))
        (rankQuotes demo_platform
           [demo_quote (Fin 5), demo_quote (Fin 1), axelar_sample (Fin 1)] ''cheapest'')
       = [demo_quote (Fin 1), axelar_sample (Fin 1)]"
proof -
  let ?qs = "[demo_quote (Fin 5), demo_quote (Fin 1), axelar_sample (Fin 1)]"
  have k: "finite_double (rank_key ''cheapest'' (demo_quote (Fin 5)))"
    "finite_double (rank_key ''cheapest'' (demo_quote (Fin 1)))"
    "finite_double (rank_key ''cheapest'' (axelar_sample (Fin 1)))"
    by (simp_all add: rank_key_def sample_keys sample_finite)
  then have h: "\<forall>q \<in> set ?qs. finite_double (rank_key ''cheapest'' q)"
    by simp
  have r: "axelar_sample (Fin 1) \<in> set ?qs" by simp
  have z: "filter (\<lambda>q. is_zero (compareQuotes ''cheapest'' q (axelar_sample (Fin 1)))) ?qs
      = [demo_quote (Fin 1), axelar_sample (Fin 1)]"
    by (simp add: compareQuotes_def sample_keys eval_js eval_double)
  note th = rankQuotes_stable_finite [OF h, of demo_platform]
  from th [THEN conjunct1] th [THEN conjunct2, rule_format, OF r] z k
  show ?thesis by simp
qed

section \<open>Aggregation: proofs\<close>

lemma across_needs_layerzero:
  "truthy_num (chain_field acrossId c) \<Longrightarrow> truthy_num (chain_field layerzeroId c)"
  by (simp add: chain_field_def CHAIN_IDS_def truthy_num_def split: if_splits)

lemma rankQuotes_single: "rankQuotes pf [q] p = [q]"
  using rankQuotes_mset [of pf "[q]" p] by simp

lemma rank_settled_best:
  assumes "best (rank_settled pf quotes f t tok a p) = Some q"
  shows "q \<in> set (fulfilled_quotes quotes)
         \<and> (executionReady q \<or> (\<forall>r \<in> set (fulfilled_quotes quotes). \<not> executionReady r))"
proof (cases "filter (\<lambda>q. executionReady q = True) (fulfilled_quotes quotes) = []")
  case True
  then have none: "\<forall>r \<in> set (fulfilled_quotes quotes). \<not> executionReady r"
    by (simp add: filter_empty_conv)
  from assms True have "q \<in> set (fulfilled_quotes quotes)"
    by (auto simp: rank_settled_def Let_def split: if_splits list.splits dest: rankQuotes_head)
  with none show ?thesis by blast
next
  case False
  with assms
  have "q \<in> set (filter (\<lambda>q. executionReady q = True) (fulfilled_quotes quotes))"
    by (auto simp: rank_settled_def Let_def split: if_splits list.splits dest!: rankQuotes_head)
  then show ?thesis by simp
qed

lemma wormhole_ready: "getWormholeQuote api f t tok a = Some q \<Longrightarrow> executionReady q"
  by (auto simp: getWormholeQuote_def split: if_splits fetched.splits)

lemma axelar_ready: "getAxelarQuote api f t tok a = Some q \<Longrightarrow> executionReady q"
  by (auto simp: getAxelarQuote_def split: if_splits fetched.splits)

lemma celer_ready: "getCelerQuote pf api f t tok a = Some q \<Longrightarrow> executionReady q"
  by (auto simp: getCelerQuote_def split: if_splits fetched.splits)

lemma layerzero_ready: "getLayerZeroQuote f t tok a = Some q \<Longrightarrow> executionReady q"
  by (auto simp: getLayerZeroQuote_def Let_def split: if_splits)

text \<open>
  Across is the only adapter whose quotes are not ready for execution, and it quotes only
  between chains for which the LayerZero adapter, which makes no network call, quotes too.
\<close>

lemma across_some_layerzero_some:
  "getAcrossQuote pf api f t tok a = Some q \<Longrightarrow> \<exists>r. getLayerZeroQuote f t tok a = Some r"
  by (auto simp: getAcrossQuote_def getLayerZeroQuote_def Let_def
      dest: across_needs_layerzero split: if_splits)

lemma fulfilled_quotes_five:
  "set (fulfilled_quotes [Fulfilled a, Fulfilled b, Fulfilled c, Fulfilled d, Fulfilled e])
     = set_option a \<union> set_option b \<union> set_option c \<union> set_option d \<union> set_option e"
  by (auto simp: fulfilled_quotes_def split: option.splits)

lemma best_route_ready:
  assumes "best (getBestBridgeRoute pf api f t tok a p) = Some q"
  shows "executionReady q"
proof (rule ccontr)
  assume nr: "\<not> executionReady q"
  let ?qs = "[Fulfilled (getAcrossQuote pf api f t tok a),
        Fulfilled (getWormholeQuote api f t tok a),
        Fulfilled (getAxelarQuote api f t tok a),
        Fulfilled (getCelerQuote pf api f t tok a),
        Fulfilled (getLayerZeroQuote f t tok a)]"
  from assms
  have b: "best (rank_settled pf ?qs f t tok a (case p of None \<Rightarrow> ''cheapest'' | Some p \<Rightarrow> p))
             = Some q"
    by (simp add: getBestBridgeRoute_def)
  from rank_settled_best [OF b] nr
  have mem: "q \<in> set (fulfilled_quotes ?qs)"
    and none: "\<forall>r \<in> set (fulfilled_quotes ?qs). \<not> executionReady r"
    by blast+
  from mem nr have "getAcrossQuote pf api f t tok a = Some q"
    unfolding fulfilled_quotes_five
    by (auto dest: wormhole_ready axelar_ready celer_ready layerzero_ready)
  then obtain r where r: "getLayerZeroQuote f t tok a = Some r"
    using across_some_layerzero_some by blast
  then have "r \<in> set (fulfilled_quotes ?qs)"
    unfolding fulfilled_quotes_five by simp
  with none have "\<not> executionReady r" by blast
  with layerzero_ready [OF r] show False by blast
qed

text \<open>
  Claim C4. If every provider call fails (its promise is rejected) or yields no quote
  (it is fulfilled with \<open>null\<close>), the aggregation returns \<open>best = null\<close>, an empty quote
  list and one warning. The aggregation is a total function of the settled calls: no
  outcome of a provider makes it throw.
\<close>

theorem aggregation_all_fail:
  assumes "\<forall>s \<in> set quotes. s = Rejected \<or> s = Fulfilled None"
  shows "rank_settled pf quotes f t tok a p
           = \<lparr>best = None, all_ranked = [], route_warnings = [NoSupportedRoute tok f t]\<rparr>"
proof -
  have "fulfilled_quotes quotes = []"
    using assms by (induction quotes) (auto simp: fulfilled_quotes_def)
  then show ?thesis
    by (simp add: rank_settled_def)
qed

theorem aggregation_all_fail_witness:
  "rank_settled demo_platform [Rejected, Fulfilled None, Fulfilled None, Rejected, Fulfilled None]
      ''celo'' ''solana'' ''USDC'' (Fin 100) ''cheapest''
     = \<lparr>best = None, all_ranked = [],
        route_warnings = [NoSupportedRoute ''USDC'' ''celo'' ''solana'']\<rparr>"
  using aggregation_all_fail
    [of "[Rejected, Fulfilled None, Fulfilled None, Rejected, Fulfilled None]"
      demo_platform "''celo''" "''solana''" "''USDC''" "Fin 100" "''cheapest''"]
  by simp

section \<open>Validation: proofs\<close>

text \<open>
  Claim C5. For every intent and every quote, also \<open>null\<close>, the verdict of
  \<open>validateTransfer\<close> has \<open>valid = true\<close> if and only if its \<open>errors\<close> are empty; the
  warnings and the suggestions have no part in it.
\<close>

theorem validateTransfer_valid_iff:
  "valid (validateTransfer pf i q) \<longleftrightarrow> errors (validateTransfer pf i q) = []"
  by (simp add: validateTransfer_def Let_def)

section \<open>The transfer state machine: proofs\<close>

lemma demo_solana: "SOLANA ''7xKXtg2CW87d97TXJSDpbD5jBkheTqA83TZRuJosgAsU''"
  by (simp add: SOLANA_def prefixed_def startsWith_def base58_def)

lemma demo_trim:
  "trim demo_platform ''7xKXtg2CW87d97TXJSDpbD5jBkheTqA83TZRuJosgAsU''
     = ''7xKXtg2CW87d97TXJSDpbD5jBkheTqA83TZRuJosgAsU''"
  by (simp add: demo_platform_def ascii_trim_def ascii_space_def)

lemma demo_detect:
  "detectChainFromAddress demo_platform ''7xKXtg2CW87d97TXJSDpbD5jBkheTqA83TZRuJosgAsU'' hint
     = \<lparr>chain = ''solana'', chainId = None, confidence = ''high'', unsupported = False\<rparr>"
  by (simp add: detectChainFromAddress_def demo_trim demo_solana startsWith_def)

lemma demo_wormhole:
  "getWormholeQuote (demo_apis x) ''celo'' ''solana'' ''USDC'' a = Some (demo_quote x)"
  by (simp add: getWormholeQuote_def demo_apis_def chain_field_def CHAIN_IDS_def truthy_num_def
      demo_quote_def)

lemma demo_others:
  "getAcrossQuote pf api ''celo'' ''solana'' tok a = None"
  "getAxelarQuote api ''celo'' ''solana'' tok a = None"
  "getCelerQuote pf api ''celo'' ''solana'' tok a = None"
  "getLayerZeroQuote ''celo'' ''solana'' tok a = None"
  by (simp_all add: getAcrossQuote_def getAxelarQuote_def getCelerQuote_def getLayerZeroQuote_def
      chain_field_def CHAIN_IDS_def truthy_num_def truthy_str_def)

lemma demo_routes:
  "getBestBridgeRoute pf (demo_apis x) ''celo'' ''solana'' ''USDC'' a p
     = \<lparr>best = Some (demo_quote x), all_ranked = [demo_quote x],
        route_warnings = quote_flags a (demo_quote x)\<rparr>"
proof -
  have e: "executionReady (demo_quote x)"
    by (simp add: demo_quote_def)
  show ?thesis
    by (simp add: getBestBridgeRoute_def demo_wormhole demo_others rank_settled_def
        fulfilled_quotes_def rankQuotes_single e Let_def)
qed

lemma demo_fee_value: "demo_fee = Fin (3602879701896397 / 4503599627370496)"
  by (simp add: demo_fee_def lit_values)

lemma demo_flags: "quote_flags (Fin 100) (demo_quote demo_fee) = []"
  by (simp add: quote_flags_def sample_keys demo_quote_def demo_fee_value lit_values
      eval_js eval_double)

lemma demo_checks:
  "check_address demo_platform (demo_intent\<lparr>toChain := Some ''solana''\<rparr>)
      \<lparr>chain = ''solana'', chainId = None, confidence = ''high'', unsupported = False\<rparr>
     = ([], [], [])"
  "check_token (demo_intent\<lparr>toChain := Some ''solana''\<rparr>) (Some ''solana'') = ([], [], [])"
  "check_amount (demo_intent\<lparr>toChain := Some ''solana''\<rparr>) = ([], [], [])"
  "check_usdm (demo_intent\<lparr>toChain := Some ''solana''\<rparr>) (Some ''solana'') = ([], [], [])"
  "check_self_transfer demo_platform (demo_intent\<lparr>toChain := Some ''solana''\<rparr>) (Some ''solana'')
     = ([], [], [])"
  by (simp_all add: check_address_def validateAddressForChain_def demo_intent_def demo_trim
      demo_solana check_token_def TOKEN_SUPPORT_MATRIX_def check_amount_def MIN_TRANSFER_USD_def
      MAX_SINGLE_TX_USD_def check_usdm_def check_self_transfer_def truthy_str_def eval_js)

lemma demo_validate:
  "validateTransfer demo_platform (demo_intent\<lparr>toChain := Some ''solana''\<rparr>) (Some q)
    = \<lparr>valid = True,
       detectedChain = \<lparr>chain = ''solana'', chainId = None, confidence = ''high'', unsupported = False\<rparr>,
       errors = [],
       warnings = fst (snd (check_bridge (demo_intent\<lparr>toChain := Some ''solana''\<rparr>)
                     (Some ''solana'') (Some q))),
       suggestions = snd (snd (check_bridge (demo_intent\<lparr>toChain := Some ''solana''\<rparr>)
                     (Some ''solana'') (Some q)))\<rparr>"
proof -
  have d: "detectChainFromAddress demo_platform (toAddress (demo_intent\<lparr>toChain := Some ''solana''\<rparr>))
             (case rawMessage (demo_intent\<lparr>toChain := Some ''solana''\<rparr>) of None \<Rightarrow> [] | Some m \<Rightarrow> m)
      = \<lparr>chain = ''solana'', chainId = None, confidence = ''high'', unsupported = False\<rparr>"
    by (simp add: demo_intent_def demo_detect)
  have b: "fst (check_bridge (demo_intent\<lparr>toChain := Some ''solana''\<rparr>) (Some ''solana'') (Some q))
      = []"
    by (simp add: check_bridge_def Let_def)
  show ?thesis
    unfolding validateTransfer_def d Let_def
    by (simp add: validation_chain_def demo_checks b)
qed

lemma demo_bridge_check:
  "check_bridge (demo_intent\<lparr>toChain := Some ''solana''\<rparr>) (Some ''solana'')
      (Some (demo_quote demo_fee)) = ([], [], [])"
  by (simp add: check_bridge_def demo_intent_def sample_keys demo_quote_def demo_fee_value
      HIGH_FEE_PERCENT_def LOW_LIQUIDITY_RATIO_def lit_values eval_js eval_double)

text \<open>
  Claim C3. For every transfer intent whose best quote has \<open>feeUSD / amount > 0.25\<close>,
  \<open>processTransfer\<close> leaves the session as it is (it does not enter
  \<open>awaiting_confirmation\<close> and stores no pending transaction) and answers with state
  \<open>idle\<close>; where the chain was detected and the validation passed, the answer is the
  hard-stop message.
\<close>

theorem hard_stop_before_confirmation:
  assumes "best (transfer_routes pf e s i) = Some q"
    and "js_gt (js_div (feeUSD q) (amount i)) (lit 0.25)"
  shows "fst (processTransfer pf e s i) = s
    \<and> reply_state (snd (processTransfer pf e s i)) = Idle
    \<and> (chain (transfer_chain pf s i) \<noteq> ''unknown'' \<and> \<not> unsupported (transfer_chain pf s i)
         \<and> valid (validateTransfer pf (i\<lparr>toChain := Some (chain (transfer_chain pf s i))\<rparr>) (Some q))
        \<longrightarrow> message (snd (processTransfer pf e s i))
              = FeeTooHigh (bridge q) (feeUSD q) (js_div (feeUSD q) (amount i)) (amount i))"
  using assms by (simp add: processTransfer_def Let_def)

lemma demo_session_chain: "transfer_chain demo_platform s demo_intent
   = \<lparr>chain = ''solana'', chainId = None, confidence = ''high'', unsupported = False\<rparr>"
  by (simp add: transfer_chain_def demo_intent_def demo_detect)

lemma demo_transfer_routes:
  "transfer_routes demo_platform (demo_env i x) s demo_intent
    = \<lparr>best = Some (demo_quote x), all_ranked = [demo_quote x],
        route_warnings = quote_flags (Fin 100) (demo_quote x)\<rparr>"
proof -
  have "transfer_routes demo_platform (demo_env i x) s demo_intent
     = getBestBridgeRoute demo_platform (demo_apis x) ''celo'' ''solana'' ''USDC'' (Fin 100)
         (Some ''cheapest'')"
    by (simp add: transfer_routes_def demo_session_chain)
       (simp add: demo_env_def demo_intent_def default_chain_def)
  then show ?thesis by (simp only: demo_routes)
qed

lemma demo_high_ratio:
  "js_div (Fin 60) (Fin 100) = Fin (5404319552844595 / 9007199254740992)"
  "js_gt (Fin (5404319552844595 / 9007199254740992)) (lit 0.25)"
  by (simp_all add: lit_values eval_js eval_double)

theorem hard_stop_before_confirmation_witness:
  "fst (processTransfer demo_platform (demo_env (Transfer demo_intent) (Fin 60)) demo_session
          demo_intent)
      = demo_session
   \<and> reply_state (snd (processTransfer demo_platform (demo_env (Transfer demo_intent) (Fin 60))
        demo_session demo_intent)) = Idle
   \<and> message (snd (processTransfer demo_platform (demo_env (Transfer demo_intent) (Fin 60))
        demo_session demo_intent))
      = FeeTooHigh ''Wormhole'' (Fin 60) (Fin (5404319552844595 / 9007199254740992)) (Fin 100)"
proof -
  let ?q = "demo_quote (Fin 60)"
  have b: "best (transfer_routes demo_platform (demo_env (Transfer demo_intent) (Fin 60))
             demo_session demo_intent) = Some ?q"
    by (simp add: demo_transfer_routes)
  have a: "amount demo_intent = Fin 100"
    by (simp add: demo_intent_def)
  have r: "js_gt (js_div (feeUSD ?q) (amount demo_intent)) (lit 0.25)"
    by (simp only: a sample_keys demo_high_ratio)
  have v: "valid (validateTransfer demo_platform
             (demo_intent\<lparr>toChain := Some (chain (transfer_chain demo_platform demo_session demo_intent))\<rparr>)
             (Some ?q))"
    by (simp add: demo_session_chain demo_validate)
  from hard_stop_before_confirmation [OF b r] v show ?thesis
    by (simp add: demo_session_chain a sample_keys demo_high_ratio)
qed

lemma processTransfer_ready:
  "ready_pending s \<Longrightarrow> ready_pending (fst (processTransfer pf e s i))"
  by (auto simp: processTransfer_def Let_def ready_pending_def transfer_routes_def
      split: option.splits dest: best_route_ready)

lemma route_intent_ready:
  "ready_pending s \<Longrightarrow> ready_pending (fst (route_intent pf e s))"
  by (auto simp: route_intent_def processSwapAndTransfer_def registerAlert_def handleQuery_def
      handleClarification_def Let_def processTransfer_ready
      split: parsed_intent.splits option.splits)
     (simp_all add: ready_pending_def)

lemma executeTransfer_ready:
  "ready_pending s \<Longrightarrow> ready_pending (fst (executeTransfer pf e s))"
  by (auto simp: executeTransfer_def ready_pending_def split: option.splits sum.splits)

lemma handleConfirmation_ready:
  "ready_pending s \<Longrightarrow> ready_pending (fst (handleConfirmation pf e s m))"
proof -
  assume r: "ready_pending s"
  then have "ready_pending (s\<lparr>state := Executing\<rparr>)"
    by (simp add: ready_pending_def)
  then have "ready_pending (fst (executeTransfer pf e (s\<lparr>state := Executing\<rparr>)))"
    by (rule executeTransfer_ready)
  with r show ?thesis
    by (simp add: handleConfirmation_def Let_def ready_pending_def)
qed

lemma handle_try_ready:
  assumes "ready_pending s"
  shows "ready_pending (fst (handle_try pf e s m))"
proof (cases "state s = Awaiting_confirmation")
  case True
  with assms show ?thesis
    by (simp add: handle_try_def handleConfirmation_ready)
next
  case False
  from assms
  have "ready_pending (s\<lparr>history := history s @ [\<lparr>role = ''user'', content = m\<rparr>]\<rparr>)"
    by (simp add: ready_pending_def)
  then have "ready_pending (fst (route_intent pf e
      (s\<lparr>history := history s @ [\<lparr>role = ''user'', content = m\<rparr>]\<rparr>)))"
    by (rule route_intent_ready)
  with False show ?thesis
    by (auto simp: handle_try_def split: prod.splits)
qed

lemma current_session_ready:
  assumes "\<forall>k s. activeSessions w k = Some s \<longrightarrow> ready_pending s"
  shows "ready_pending (current_session e w sid wi)"
  using assms
  by (auto simp: current_session_def createSession_def ready_pending_def split: option.splits)

lemma handleUserMessage_ready:
  assumes "\<forall>k s. activeSessions w k = Some s \<longrightarrow> ready_pending s"
    and "activeSessions (fst (handleUserMessage pf e w sid m wi)) k = Some s"
  shows "ready_pending s"
proof -
  have cur: "ready_pending (fst (handle_try pf e (current_session e w sid wi) m))"
    using assms(1) by (intro handle_try_ready current_session_ready)
  obtain s' out where h: "handle_try pf e (current_session e w sid wi) m = (s', out)"
    by (cases "handle_try pf e (current_session e w sid wi) m")
  with cur have s': "ready_pending s'" by simp
  then have s'': "ready_pending (s'\<lparr>state := Idle\<rparr>)"
    by (simp add: ready_pending_def)
  show ?thesis
  proof (cases "k = sid")
    case True
    with assms(2) h s' s'' show ?thesis
      by (auto simp: handleUserMessage_def Let_def split: outcome.splits)
  next
    case False
    with assms h show ?thesis
      by (auto simp: handleUserMessage_def Let_def split: outcome.splits)
  qed
qed

lemma chat_reachable_ready:
  "chat_reachable pf w \<Longrightarrow> \<forall>k s. activeSessions w k = Some s \<longrightarrow> ready_pending s"
proof (induction rule: chat_reachable.induct)
  case start
  then show ?case by simp
next
  case (message w e sid userMessage walletInfo)
  then show ?case
    using handleUserMessage_ready by blast
qed

text \<open>
  Between two calls every session is idle or waits for a confirmation with a pending
  transaction at hand: \<open>executing\<close> is never left behind, and the \<open>catch\<close> of
  \<open>handleUserMessage\<close> is not reached.
\<close>

lemma processTransfer_at_rest:
  "at_rest s \<Longrightarrow> state s = Idle \<Longrightarrow> at_rest (fst (processTransfer pf e s i))"
  by (auto simp: processTransfer_def Let_def at_rest_def split: option.splits)

lemma route_intent_at_rest:
  "at_rest s \<Longrightarrow> state s = Idle \<Longrightarrow> at_rest (fst (route_intent pf e s))"
  by (auto simp: route_intent_def processSwapAndTransfer_def registerAlert_def handleQuery_def
      handleClarification_def Let_def processTransfer_at_rest
      split: parsed_intent.splits option.splits)
     (simp_all add: at_rest_def)

lemma handle_try_at_rest:
  assumes "at_rest s"
  shows "case handle_try pf e s m of
           (s', Returned r) \<Rightarrow> at_rest s'
         | (s', Thrown x) \<Rightarrow> False"
proof (cases "state s = Awaiting_confirmation")
  case True
  with assms obtain p where p: "pendingTransaction s = Some p"
    by (auto simp: at_rest_def)
  with True show ?thesis
    by (auto simp: handle_try_def handleConfirmation_def executeTransfer_def Let_def at_rest_def
        split: sum.splits)
next
  case False
  with assms have i: "state s = Idle" by (simp add: at_rest_def)
  let ?s = "s\<lparr>history := history s @ [\<lparr>role = ''user'', content = m\<rparr>]\<rparr>"
  have "at_rest ?s" "state ?s = Idle"
    using assms i by (simp_all add: at_rest_def)
  then have "at_rest (fst (route_intent pf e ?s))"
    by (rule route_intent_at_rest)
  with False show ?thesis
    by (auto simp: handle_try_def split: prod.splits)
qed

lemma chat_reachable_at_rest:
  "chat_reachable pf w \<Longrightarrow> activeSessions w k = Some s \<Longrightarrow> at_rest s"
proof (induction arbitrary: k s rule: chat_reachable.induct)
  case start
  then show ?case by simp
next
  case (message w e sid userMessage walletInfo)
  have cur: "at_rest (current_session e w sid walletInfo)"
  proof (cases "activeSessions w sid")
    case None
    then show ?thesis
      by (simp add: current_session_def createSession_def at_rest_def)
  next
    case (Some known)
    then show ?thesis
      using message.IH [of sid known] by (simp add: current_session_def)
  qed
  from handle_try_at_rest [OF cur, of pf e userMessage] message.prems message.IH
  show ?case
    by (auto simp: handleUserMessage_def Let_def split: prod.splits outcome.splits if_splits)
qed

text \<open>
  Claim C1. The \<open>best\<close> quote of \<open>getBestBridgeRoute\<close> has \<open>executionReady = true\<close>
  whenever there is one, and in every world that chat traffic can produce the quote of
  every stored pending transaction has \<open>executionReady = true\<close>. The stored pending
  transaction is what \<open>executeTransfer\<close> dispatches on a confirmation.
\<close>

theorem dispatched_quote_ready:
  "(best (getBestBridgeRoute pf api f t tok a pr) = Some q \<longrightarrow> executionReady q)
   \<and> (chat_reachable pf w \<longrightarrow> activeSessions w sid = Some s \<longrightarrow> pendingTransaction s = Some p
        \<longrightarrow> executionReady (bridgeQuote p))"
proof -
  have "executionReady (bridgeQuote p)"
    if "chat_reachable pf w" and "activeSessions w sid = Some s" and "pendingTransaction s = Some p"
    using chat_reachable_ready [OF that(1)] that(2,3)
    by (auto simp: ready_pending_def split: option.splits)
  then show ?thesis
    using best_route_ready by blast
qed

lemma handleUserMessage_alerts_frame:
  "activeAlerts (fst (handleUserMessage pf e w sid m wi)) = activeAlerts w"
  by (simp add: handleUserMessage_def Let_def split: prod.splits outcome.splits)

lemma chat_never_registers: "chat_reachable pf w \<Longrightarrow> activeAlerts w = []"
  by (induction rule: chat_reachable.induct) (simp_all add: handleUserMessage_alerts_frame)

text \<open>
  Claim C10. Handling an alert intent through \<open>handleUserMessage\<close> leaves the alert
  engine's registry \<open>activeAlerts\<close> as it is, appends the alert to the \<open>alerts\<close> of the
  session and touches no other session.
\<close>

theorem chat_alert_only_in_session:
  assumes "parsed e = Alert a"
    and "state (current_session e w sid wi) \<noteq> Awaiting_confirmation"
  shows "activeAlerts (fst (handleUserMessage pf e w sid m wi)) = activeAlerts w
    \<and> map_option alerts (activeSessions (fst (handleUserMessage pf e w sid m wi)) sid)
        = Some (alerts (current_session e w sid wi)
                @ [\<lparr>alert_id = ''alert_'' @ now_ms e, alert_spec = a,
                    alert_createdAt = now_iso e\<rparr>])
    \<and> (\<forall>k. k \<noteq> sid \<longrightarrow>
          activeSessions (fst (handleUserMessage pf e w sid m wi)) k = activeSessions w k)"
  using assms
  by (simp add: handleUserMessage_def Let_def handle_try_def route_intent_def registerAlert_def)

lemma executeTransfer_failure_keeps_pending:
  assumes "pendingTransaction s = Some p" and "executeTransfer_try pf (exec e) p = Inl failure"
  shows "executeTransfer pf e s
           = (s\<lparr>state := Idle\<rparr>,
              Returned \<lparr>message = TransferFailed (explanation e), reply_state = Error_state\<rparr>)"
  using assms by (simp add: executeTransfer_def)

lemma demo_low_ratio: "\<not> js_gt (js_div demo_fee (Fin 100)) (lit (1 / 4))"
  by (simp add: demo_fee_value lit_values eval_js eval_double)

lemma demo_process:
  "processTransfer demo_platform (demo_env i demo_fee) s demo_intent
    = (s\<lparr>pendingTransaction := Some demo_pending, state := Awaiting_confirmation,
          history := history s @ [\<lparr>role = ''assistant'', content = ''...''\<rparr>]\<rparr>,
       \<lparr>message = Preview ''Reply YES to confirm or NO to cancel.'' [] [] [],
        reply_state = Awaiting_confirmation\<rparr>)"
proof -
  have v: "validateTransfer demo_platform (demo_intent\<lparr>toChain := Some ''solana''\<rparr>)
             (Some (demo_quote demo_fee))
      = \<lparr>valid = True,
       detectedChain = \<lparr>chain = ''solana'', chainId = None, confidence = ''high'', unsupported = False\<rparr>,
       errors = [], warnings = [], suggestions = []\<rparr>"
    by (simp add: demo_validate demo_bridge_check)
  have q: "feeUSD (demo_quote demo_fee) = demo_fee" "amount demo_intent = Fin 100"
    "bridge (demo_quote demo_fee) = ''Wormhole''"
    by (simp_all add: demo_quote_def demo_intent_def)
  have e: "preview_text (demo_env i demo_fee) = ''Reply YES to confirm or NO to cancel.''"
     "render (demo_env i demo_fee) = (\<lambda>r. ''...'')"
    by (simp_all add: demo_env_def)
  show ?thesis
    unfolding processTransfer_def demo_session_chain demo_transfer_routes Let_def
    by (simp add: v q e demo_low_ratio demo_flags demo_pending_def)
qed

lemma demo_first_step:
  "handleUserMessage demo_platform (demo_env (Transfer demo_intent) demo_fee) empty_world ''s1''
      demo_message demo_wallet
    = (demo_world, \<lparr>message = Preview ''Reply YES to confirm or NO to cancel.'' [] [] [],
        reply_state = Awaiting_confirmation\<rparr>)"
proof -
  have c: "current_session (demo_env (Transfer demo_intent) demo_fee) empty_world ''s1'' demo_wallet
      = demo_session"
    by (simp add: current_session_def empty_world_def demo_session_def demo_env_def)
  have p: "parsed (demo_env (Transfer demo_intent) demo_fee) = Transfer demo_intent"
    by (simp add: demo_env_def)
  have i: "state demo_session = Idle" "history demo_session = []"
    by (simp_all add: demo_session_def createSession_def)
  have h: "handle_try demo_platform (demo_env (Transfer demo_intent) demo_fee) demo_session
             demo_message
      = (demo_awaiting,
         Returned \<lparr>message = Preview ''Reply YES to confirm or NO to cancel.'' [] [] [],
           reply_state = Awaiting_confirmation\<rparr>)"
    by (simp add: handle_try_def i route_intent_def p demo_process demo_awaiting_def)
  show ?thesis
    unfolding handleUserMessage_def Let_def c h
    by (simp add: demo_world_def empty_world_def)
qed

lemma demo_world_reachable: "chat_reachable demo_platform demo_world"
proof -
  have "chat_reachable demo_platform empty_world"
    unfolding empty_world_def by (rule chat_reachable.start)
  then have "chat_reachable demo_platform
      (fst (handleUserMessage demo_platform (demo_env (Transfer demo_intent) demo_fee) empty_world
              ''s1'' demo_message demo_wallet))"
    by (rule chat_reachable.message)
  then show ?thesis by (simp add: demo_first_step)
qed

theorem dispatched_quote_ready_witness:
  "best (getBestBridgeRoute demo_platform (demo_apis demo_fee) ''celo'' ''solana'' ''USDC''
           (Fin 100) None)
     = Some (demo_quote demo_fee)
   \<and> executionReady (demo_quote demo_fee)
   \<and> chat_reachable demo_platform demo_world
   \<and> activeSessions demo_world ''s1'' = Some demo_awaiting
   \<and> pendingTransaction demo_awaiting = Some demo_pending
   \<and> executionReady (bridgeQuote demo_pending)"
proof -
  have a: "activeSessions demo_world ''s1'' = Some demo_awaiting"
    by (simp add: demo_world_def)
  have b: "pendingTransaction demo_awaiting = Some demo_pending"
    by (simp add: demo_awaiting_def)
  have c: "best (getBestBridgeRoute demo_platform (demo_apis demo_fee) ''celo'' ''solana'' ''USDC''
             (Fin 100) None) = Some (demo_quote demo_fee)"
    by (simp add: demo_routes)
  note th = dispatched_quote_ready
    [where pf = demo_platform and w = demo_world and sid = "''s1''" and s = demo_awaiting
       and p = demo_pending and api = "demo_apis demo_fee" and f = "''celo''" and t = "''solana''"
       and tok = "''USDC''" and a = "Fin 100" and pr = None and q = "demo_quote demo_fee"]
  from th [THEN conjunct1, rule_format, OF c]
    th [THEN conjunct2, rule_format, OF demo_world_reachable a b] a b c demo_world_reachable
  show ?thesis by blast
qed

lemma demo_replies:
  "toLowerCase demo_platform (trim demo_platform ''yes'') = ''yes''"
  "toLowerCase demo_platform (trim demo_platform ''maybe'') = ''maybe''"
  "toLowerCase demo_platform (trim demo_platform ''cancel, not yet'') = ''cancel, not yet''"
  "toLowerCase demo_platform (trim demo_platform ''one moment'') = ''one moment''"
  by (simp_all add: demo_platform_def ascii_lower_def ascii_trim_def ascii_space_def
      upper_letters_def lower_letters_def)

lemma demo_yes: "isYes ''yes''" "isYes ''maybe''"
  by (simp_all add: isYes_def YES_WORDS_def startsWith_def)

lemma demo_dispatch_fails:
  "executeTransfer_try demo_platform x demo_pending
     = (case wallet_error x of Some m \<Rightarrow> Inl (WalletSetupFailed m)
        | None \<Rightarrow> (case units_error x of Some m \<Rightarrow> Inl (UnitsFailed m)
            | None \<Rightarrow> Inl (BridgeContractUnknown ''Wormhole'')))"
  by (simp add: executeTransfer_try_def demo_pending_def demo_intent_def demo_quote_def
      default_chain_def demo_platform_def ascii_upper_def lower_letters_def upper_letters_def
      truthy_str_def getBridgeContractAddress_def BRIDGE_CONTRACTS_def Let_def
      split: option.splits)

lemma demo_confirmed:
  assumes "toLowerCase demo_platform (trim demo_platform m) = msg" and "isYes msg"
  shows "handleUserMessage demo_platform (demo_env Unrecognised demo_fee) demo_world ''s1'' m
           demo_wallet
     = (\<lparr>activeSessions = [''s1'' \<mapsto> demo_awaiting\<lparr>state := Idle\<rparr>], activeAlerts = []\<rparr>,
        \<lparr>message = TransferFailed ''The transfer hit a snag.'', reply_state = Error_state\<rparr>)"
proof -
  let ?e = "demo_env Unrecognised demo_fee"
  have c: "current_session ?e demo_world ''s1'' demo_wallet = demo_awaiting"
    by (simp add: current_session_def demo_world_def)
  have st: "state demo_awaiting = Awaiting_confirmation"
    and pe: "pendingTransaction (demo_awaiting\<lparr>state := Executing\<rparr>) = Some demo_pending"
    by (simp_all add: demo_awaiting_def)
  have f: "executeTransfer_try demo_platform (exec ?e) demo_pending
             = Inl (BridgeContractUnknown ''Wormhole'')"
    by (simp add: demo_dispatch_fails demo_env_def)
  have x: "executeTransfer demo_platform ?e (demo_awaiting\<lparr>state := Executing\<rparr>)
      = (demo_awaiting\<lparr>state := Idle\<rparr>,
         Returned \<lparr>message = TransferFailed (explanation ?e), reply_state = Error_state\<rparr>)"
    using executeTransfer_failure_keeps_pending [OF pe f] by simp
  have ex: "explanation ?e = ''The transfer hit a snag.''"
    by (simp add: demo_env_def)
  have h: "handle_try demo_platform ?e demo_awaiting m
      = (demo_awaiting\<lparr>state := Idle\<rparr>,
         Returned \<lparr>message = TransferFailed ''The transfer hit a snag.'', reply_state = Error_state\<rparr>)"
    unfolding handle_try_def handleConfirmation_def Let_def
    by (simp only: st assms x ex if_True simp_thms)
  show ?thesis
    unfolding handleUserMessage_def Let_def c h
    by (simp add: demo_world_def)
qed

text \<open>
  Claim C2, at a failing input. The session waits for the confirmation of a Wormhole
  transfer and the user answers "yes". No bridge contract is known for \<open>wormhole_ntt\<close>,
  so the \<open>try\<close> block of \<open>executeTransfer\<close> throws: the session goes back to \<open>idle\<close>
  and still holds the pending transaction.
\<close>

theorem failed_dispatch_keeps_pending:
  "handleUserMessage demo_platform (demo_env Unrecognised demo_fee) demo_world ''s1'' ''yes''
      demo_wallet
     = (\<lparr>activeSessions = [''s1'' \<mapsto> demo_awaiting\<lparr>state := Idle\<rparr>], activeAlerts = []\<rparr>,
        \<lparr>message = TransferFailed ''The transfer hit a snag.'', reply_state = Error_state\<rparr>)
   \<and> pendingTransaction (demo_awaiting\<lparr>state := Idle\<rparr>) = Some demo_pending"
proof -
  have "pendingTransaction (demo_awaiting\<lparr>state := Idle\<rparr>) = Some demo_pending"
    by (simp add: demo_awaiting_def)
  with demo_confirmed [OF demo_replies(1) demo_yes(1)] show ?thesis by simp
qed

text \<open>
  Claim C9, at failing inputs. The vocabulary is matched by substring and holds the
  one-letter words "y" and "n". So every message that, trimmed and in lower case, contains
  the letter "y" is handled as a confirmation, whatever else it says, and the transfer is
  dispatched: "maybe" is such a message, and so is "cancel, not yet", since the
  affirmative words are tried first. And every message with the letter "n" and no
  affirmative word in it is handled as a cancellation, which drops the pending
  transaction: "one moment" is such a message. The claim asks for a re-prompt and an
  unchanged session in these cases.
\<close>

theorem substring_reply_decides:
  assumes "toLowerCase pf (trim pf m) = msg"
  shows "(str_includes msg ''y''
            \<longrightarrow> handleConfirmation pf e s m = executeTransfer pf e (s\<lparr>state := Executing\<rparr>))
    \<and> (\<not> isYes msg \<and> str_includes msg ''n''
            \<longrightarrow> handleConfirmation pf e s m
                  = (s\<lparr>state := Idle, pendingTransaction := None\<rparr>,
                     Returned \<lparr>message = Cancelled, reply_state = Idle\<rparr>))"
proof (intro conjI impI)
  assume "str_includes msg ''y''"
  then have "isYes msg"
    by (simp add: isYes_def YES_WORDS_def)
  with assms show "handleConfirmation pf e s m = executeTransfer pf e (s\<lparr>state := Executing\<rparr>)"
    by (simp add: handleConfirmation_def Let_def)
next
  assume n: "\<not> isYes msg \<and> str_includes msg ''n''"
  then have "isNo msg"
    by (simp add: isNo_def NO_WORDS_def)
  with assms n show "handleConfirmation pf e s m
      = (s\<lparr>state := Idle, pendingTransaction := None\<rparr>,
         Returned \<lparr>message = Cancelled, reply_state = Idle\<rparr>)"
    by (simp add: handleConfirmation_def Let_def)
qed

text \<open>
  In the sample world the session waits for the confirmation of the Wormhole transfer:
  on "maybe" it leaves \<open>awaiting_confirmation\<close>, and the answer is that of the
  dispatch, which here fails as in claim C2, not the re-prompt.
\<close>

theorem substring_reply_decides_witness:
  "toLowerCase demo_platform (trim demo_platform ''maybe'') = ''maybe''
   \<and> str_includes ''maybe'' ''y''
   \<and> handleConfirmation demo_platform (demo_env Unrecognised demo_fee) demo_awaiting ''maybe''
     = executeTransfer demo_platform (demo_env Unrecognised demo_fee)
         (demo_awaiting\<lparr>state := Executing\<rparr>)
   \<and> toLowerCase demo_platform (trim demo_platform ''cancel, not yet'') = ''cancel, not yet''
   \<and> str_includes ''cancel, not yet'' ''y''
   \<and> handleConfirmation demo_platform (demo_env Unrecognised demo_fee) demo_awaiting
        ''cancel, not yet''
     = executeTransfer demo_platform (demo_env Unrecognised demo_fee)
         (demo_awaiting\<lparr>state := Executing\<rparr>)
   \<and> toLowerCase demo_platform (trim demo_platform ''one moment'') = ''one moment''
   \<and> \<not> isYes ''one moment''
   \<and> str_includes ''one moment'' ''n''
   \<and> handleConfirmation demo_platform (demo_env Unrecognised demo_fee) demo_awaiting
        ''one moment''
     = (demo_awaiting\<lparr>state := Idle, pendingTransaction := None\<rparr>,
        Returned \<lparr>message = Cancelled, reply_state = Idle\<rparr>)
   \<and> state demo_awaiting = Awaiting_confirmation
   \<and> handleUserMessage demo_platform (demo_env Unrecognised demo_fee) demo_world ''s1'' ''maybe''
        demo_wallet
     = (\<lparr>activeSessions = [''s1'' \<mapsto> demo_awaiting\<lparr>state := Idle\<rparr>], activeAlerts = []\<rparr>,
        \<lparr>message = TransferFailed ''The transfer hit a snag.'', reply_state = Error_state\<rparr>)"
proof -
  have y: "str_includes ''maybe'' ''y''" "str_includes ''cancel, not yet'' ''y''"
    by (simp_all add: startsWith_def)
  have n: "\<not> isYes ''one moment'' \<and> str_includes ''one moment'' ''n''"
    by (simp add: isYes_def YES_WORDS_def startsWith_def)
  have st: "state demo_awaiting = Awaiting_confirmation"
    by (simp add: demo_awaiting_def)
  from substring_reply_decides [OF demo_replies(2), THEN conjunct1, rule_format, OF y(1)]
    substring_reply_decides [OF demo_replies(3), THEN conjunct1, rule_format, OF y(2)]
    substring_reply_decides [OF demo_replies(4), THEN conjunct2, rule_format, OF n]
    demo_confirmed [OF demo_replies(2) demo_yes(2)] demo_replies(2,3,4) y n st
  show ?thesis by simp
qed

theorem chat_alert_only_in_session_witness:
  "parsed (demo_env (Alert demo_alert) demo_fee) = Alert demo_alert
   \<and> state (current_session (demo_env (Alert demo_alert) demo_fee) demo_world ''s2'' demo_wallet)
       \<noteq> Awaiting_confirmation
   \<and> activeAlerts (fst (handleUserMessage demo_platform (demo_env (Alert demo_alert) demo_fee)
         demo_world ''s2'' ''alert me when fees to solana drop below $1'' demo_wallet)) = []
   \<and> map_option alerts (activeSessions (fst (handleUserMessage demo_platform
         (demo_env (Alert demo_alert) demo_fee) demo_world ''s2''
         ''alert me when fees to solana drop below $1'' demo_wallet)) ''s2'')
       = Some [\<lparr>alert_id = ''alert_1700000000000'', alert_spec = demo_alert,
                 alert_createdAt = ''2023-11-14T22:13:20.000Z''\<rparr>]
   \<and> activeSessions (fst (handleUserMessage demo_platform (demo_env (Alert demo_alert) demo_fee)
         demo_world ''s2'' ''alert me when fees to solana drop below $1'' demo_wallet)) ''s1''
       = Some demo_awaiting"
proof -
  let ?e = "demo_env (Alert demo_alert) demo_fee"
  have p: "parsed ?e = Alert demo_alert"
    by (simp add: demo_env_def)
  have c: "current_session ?e demo_world ''s2'' demo_wallet
      = createSession ''s2'' demo_wallet ''2023-11-14T22:13:20.000Z''"
    by (simp add: current_session_def demo_world_def demo_env_def)
  have st: "state (current_session ?e demo_world ''s2'' demo_wallet) \<noteq> Awaiting_confirmation"
    by (simp add: c createSession_def)
  have al: "alerts (current_session ?e demo_world ''s2'' demo_wallet) = []"
    by (simp add: c createSession_def)
  have ev: "now_ms ?e = ''1700000000000''" "now_iso ?e = ''2023-11-14T22:13:20.000Z''"
    by (simp_all add: demo_env_def)
  have w: "activeAlerts demo_world = []" "activeSessions demo_world ''s1'' = Some demo_awaiting"
    by (simp_all add: demo_world_def)
  have ne: "''s1'' \<noteq> ''s2''" by simp
  have id: "''alert_'' @ ''1700000000000'' = ''alert_1700000000000''" by simp
  note th = chat_alert_only_in_session
    [OF p st, of demo_platform "''alert me when fees to solana drop below $1''"]
  have 1: "activeAlerts (fst (handleUserMessage demo_platform ?e demo_world ''s2''
          ''alert me when fees to solana drop below $1'' demo_wallet)) = []"
    using th [THEN conjunct1] by (simp only: w)
  have 2: "map_option alerts (activeSessions (fst (handleUserMessage demo_platform ?e demo_world ''s2''
          ''alert me when fees to solana drop below $1'' demo_wallet)) ''s2'')
        = Some [\<lparr>alert_id = ''alert_1700000000000'', alert_spec = demo_alert,
                  alert_createdAt = ''2023-11-14T22:13:20.000Z''\<rparr>]"
    using th [THEN conjunct2, THEN conjunct1] by (simp only: al ev id append_Nil)
  have 3: "activeSessions (fst (handleUserMessage demo_platform ?e demo_world ''s2''
          ''alert me when fees to solana drop below $1'' demo_wallet)) ''s1'' = Some demo_awaiting"
    using th [THEN conjunct2, THEN conjunct2, rule_format, OF ne] by (simp only: w)
  from p st 1 2 3 show ?thesis by blast
qed

section \<open>The alert monitor: proofs\<close>

lemma poll_alerts_Cons:
  "poll_alerts pf mk cb now ((k, a) # rest) =
     (let r = poll_alerts pf mk cb now rest;
          a' = a\<lparr>triggered := True, triggeredAt := Some now\<rparr>
      in if triggered a then ((k, a) # fst r, fst (snd r), snd (snd r))
         else
           (case checkPriceAlert pf (mk k) a of
              Thrown m \<Rightarrow> ((k, a) # rest, [], False)
            | Returned conditionMet \<Rightarrow>
                if conditionMet
                then (if cb k then ((k, a') # rest, [(k, a')], False)
                      else ((k, a') # fst r, (k, a') # fst (snd r), snd (snd r)))
                else ((k, a) # fst r, fst (snd r), snd (snd r))))"
  by (simp add: Let_def split: prod.splits outcome.splits)

lemma demo_min_fee:
  "minFeeUSD demo_platform (demo_apis demo_fee) ''celo'' ''solana'' ''USDC'' (Fin 100)
     = Some demo_fee"
  by (simp add: minFeeUSD_def demo_routes sample_keys Math_min_def)
     (simp add: demo_fee_value js_lt_def)

lemma demo_fee_check:
  "checkPriceAlert demo_platform demo_market demo_fee_alert = Returned True"
  by (simp add: checkPriceAlert_def demo_fee_alert_def demo_alert_def demo_market_def
      or_default_def or_undefined_def demo_min_fee below_def)
     (simp add: demo_fee_value js_lt_def)

lemma demo_price_check:
  "checkPriceAlert pf mk demo_price_alert = Thrown ''TypeError''"
  by (simp add: checkPriceAlert_def demo_price_alert_def)

text \<open>
  Claim C8, at a failing input. The registry holds a price alert without a token in front
  of a fee alert whose condition holds (the best fee is 0.80, the threshold 1). Alone in
  the registry the fee alert is triggered by the run and handed to the callback. Behind
  the price alert it is not: evaluating the price alert throws, which ends the run, so the
  fee alert is not triggered and the callback is not invoked, in this run and in every
  later one that finds the registry like this.
\<close>

theorem alert_tick_abort:
  "\<not> triggered demo_fee_alert
   \<and> checkPriceAlert demo_platform demo_market demo_fee_alert = Returned True
   \<and> poll_alerts demo_platform (\<lambda>k. demo_market) (\<lambda>k. False) ''2023-11-14T22:15:20.000Z''
        [(''s1_1700000000000'', demo_fee_alert)]
      = ([(''s1_1700000000000'',
           demo_fee_alert\<lparr>triggered := True, triggeredAt := Some ''2023-11-14T22:15:20.000Z''\<rparr>)],
         [(''s1_1700000000000'',
           demo_fee_alert\<lparr>triggered := True, triggeredAt := Some ''2023-11-14T22:15:20.000Z''\<rparr>)],
         True)
   \<and> poll_alerts demo_platform (\<lambda>k. demo_market) (\<lambda>k. False) ''2023-11-14T22:15:20.000Z''
        [(''s1_1690000000000'', demo_price_alert), (''s1_1700000000000'', demo_fee_alert)]
      = ([(''s1_1690000000000'', demo_price_alert), (''s1_1700000000000'', demo_fee_alert)],
         [], False)"
proof -
  have "\<not> triggered demo_price_alert" and "\<not> triggered demo_fee_alert"
    by (simp_all add: demo_price_alert_def demo_fee_alert_def)
  then show ?thesis
    unfolding poll_alerts_Cons
    by (simp add: demo_price_check demo_fee_check Let_def)
qed

end
